theory Spec2Isabelle
  imports Main
begin

section \<open>Python values\<close>

text \<open>
  A Python \<open>str\<close> is a sequence of Unicode code points, so it is modelled as a list of
  naturals. \<open>lit\<close> turns an ASCII literal into such a list.
\<close>

type_synonym pystr = "nat list"

abbreviation (input) lit :: "string \<Rightarrow> pystr" where
  "lit cs \<equiv> map of_char cs"

text \<open>
  A float is kept as what is known of it exactly: the decimal it was written as
  (sign, digits, power of ten), or one of the three special values.
\<close>

datatype pyfloat = FNaN | FInf bool | FDec bool nat int

datatype pyval =
    PNone
  | PBool bool
  | PInt int
  | PFloat pyfloat
  | PStr pystr
  | PList "pyval list"
  | PDict "(pystr \<times> pyval) list"

type_synonym pydict = "(pystr \<times> pyval) list"

text \<open>
  The exceptions are told apart by the \<open>except\<close> clause of \<open>lambda_handler\<close> that
  catches them; each carries the text \<open>str()\<close> gives it.
\<close>

datatype exn = ValueError pystr | ClientError pystr | OtherException pystr

text \<open>
  What the handler takes from its surroundings on one invocation: the process environment,
  the value \<open>str(uuid.uuid4())\<close> draws, the value
  \<open>datetime.now(timezone.utc).isoformat()\<close> reads, and three library functions that are
  taken as given: \<open>base64.b64decode(s).decode("utf-8")\<close> on a \<open>str\<close> (\<open>Inl\<close> is the text of
  the \<open>ValueError\<close> it raises: \<open>binascii.Error\<close> and \<open>UnicodeDecodeError\<close> are both
  subclasses), \<open>repr\<close> on floats, lists and dicts, and the text of the \<open>TypeError\<close> or
  \<open>AttributeError\<close> the interpreter raises on a value of the wrong type.
\<close>

record runtime =
  environ :: "(pystr \<times> pystr) list"
  uuid4 :: pystr
  utcnow_iso :: pystr
  b64decode_utf8 :: "pystr \<Rightarrow> pystr + pystr"
  py_repr :: "pyval \<Rightarrow> pystr"
  type_error_text :: "pyval \<Rightarrow> pystr"

subsection \<open>Truth value, \<open>str()\<close>, \<open>dict.get\<close>\<close>

definition float_truthy :: "pyfloat \<Rightarrow> bool" where
  \<comment> \<open>A decimal rounds to the binary64 zero when it is at most half the least subnormal.\<close>
  "float_truthy f =
     (case f of
        FNaN \<Rightarrow> True
      | FInf _ \<Rightarrow> True
      | FDec _ m e \<Rightarrow> m \<noteq> 0 \<and> (0 \<le> e \<or> 10 ^ nat (- e) < m * 2 ^ 1075))"

definition truthy :: "pyval \<Rightarrow> bool" where
  "truthy v =
     (case v of
        PNone \<Rightarrow> False
      | PBool b \<Rightarrow> b
      | PInt i \<Rightarrow> i \<noteq> 0
      | PFloat f \<Rightarrow> float_truthy f
      | PStr s \<Rightarrow> s \<noteq> []
      | PList xs \<Rightarrow> xs \<noteq> []
      | PDict d \<Rightarrow> d \<noteq> [])"

fun digits :: "nat \<Rightarrow> pystr" where
  "digits n = (if n < 10 then [48 + n] else digits (n div 10) @ [48 + n mod 10])"

declare digits.simps [simp del]

definition str_int :: "int \<Rightarrow> pystr" where
  "str_int i = (if i < 0 then 45 # digits (nat (- i)) else digits (nat i))"

definition py_str :: "runtime \<Rightarrow> pyval \<Rightarrow> pystr" where
  "py_str rt v =
     (case v of
        PNone \<Rightarrow> lit ''None''
      | PBool b \<Rightarrow> (if b then lit ''True'' else lit ''False'')
      | PInt i \<Rightarrow> str_int i
      | PStr s \<Rightarrow> s
      | _ \<Rightarrow> py_repr rt v)"

definition dict_get :: "pydict \<Rightarrow> pystr \<Rightarrow> pyval" where
  \<comment> \<open>\<open>d.get(k)\<close>: the default is \<open>None\<close>.\<close>
  "dict_get d k = (case map_of d k of None \<Rightarrow> PNone | Some v \<Rightarrow> v)"

fun dict_set :: "('k \<times> 'v) list \<Rightarrow> 'k \<Rightarrow> 'v \<Rightarrow> ('k \<times> 'v) list" where
  \<comment> \<open>\<open>d[k] = v\<close>: an existing key keeps its place, a new one goes last.\<close>
  "dict_set [] k v = [(k, v)]"
| "dict_set ((k', v') # d) k v = (if k' = k then (k, v) # d else (k', v') # dict_set d k v)"

definition py_get :: "runtime \<Rightarrow> pyval \<Rightarrow> pystr \<Rightarrow> pyval \<Rightarrow> exn + pyval" where
  \<comment> \<open>\<open>v.get(k, dflt)\<close> on any value: only a dict has the method.\<close>
  "py_get rt v k dflt =
     (case v of
        PDict d \<Rightarrow> Inr (case map_of d k of None \<Rightarrow> dflt | Some x \<Rightarrow> x)
      | _ \<Rightarrow> Inl (OtherException (type_error_text rt v)))"

fun is_prefix :: "'a list \<Rightarrow> 'a list \<Rightarrow> bool" where
  "is_prefix [] ys = True"
| "is_prefix (x # xs) [] = False"
| "is_prefix (x # xs) (y # ys) = (x = y \<and> is_prefix xs ys)"

fun contains :: "'a list \<Rightarrow> 'a list \<Rightarrow> bool" where
  \<comment> \<open>\<open>needle in hay\<close> on two strings.\<close>
  "contains needle [] = (needle = [])"
| "contains needle (y # ys) = (is_prefix needle (y # ys) \<or> contains needle ys)"

section \<open>The response\<close>

record response =
  statusCode :: int
  headers :: "(pystr \<times> pystr) list"
  body :: pystr

definition getenv :: "runtime \<Rightarrow> pystr \<Rightarrow> pystr option" where
  "getenv rt k = map_of (environ rt) k"

definition get_cors_headers :: "runtime \<Rightarrow> (pystr \<times> pystr) list" where
  "get_cors_headers rt =
     (let allowed_origins =
            (case getenv rt (lit ''ALLOWED_ORIGINS'') of None \<Rightarrow> lit ''*'' | Some v \<Rightarrow> v)
      in [(lit ''Access-Control-Allow-Origin'', allowed_origins),
          (lit ''Access-Control-Allow-Methods'', lit ''OPTIONS,POST''),
          (lit ''Access-Control-Allow-Headers'', lit ''Content-Type,Authorization''),
          (lit ''Access-Control-Max-Age'', lit ''86400'')])"

text \<open>
  \<open>json.dumps\<close> on the bodies the handler builds: a dict from \<open>str\<close> to \<open>str\<close>, with the
  default separators and \<open>ensure_ascii\<close>.
\<close>

definition hexdigit :: "nat \<Rightarrow> nat" where
  "hexdigit d = (if d < 10 then 48 + d else 87 + d)"

definition u_escape :: "nat \<Rightarrow> pystr" where
  "u_escape c =
     [92, 117, hexdigit (c div 4096 mod 16), hexdigit (c div 256 mod 16),
      hexdigit (c div 16 mod 16), hexdigit (c mod 16)]"

definition json_escape_char :: "nat \<Rightarrow> pystr" where
  "json_escape_char c =
     (if c = 34 then [92, 34]
      else if c = 92 then [92, 92]
      else if c = 10 then [92, 110]
      else if c = 13 then [92, 114]
      else if c = 9 then [92, 116]
      else if c = 8 then [92, 98]
      else if c = 12 then [92, 102]
      else if 32 \<le> c \<and> c \<le> 126 then [c]
      else if c < 65536 then u_escape c
      else u_escape (55296 + (c - 65536) div 1024) @ u_escape (56320 + (c - 65536) mod 1024))"

definition json_string :: "pystr \<Rightarrow> pystr" where
  "json_string s = [34] @ concat (map json_escape_char s) @ [34]"

fun join :: "pystr \<Rightarrow> pystr list \<Rightarrow> pystr" where
  "join sep [] = []"
| "join sep [x] = x"
| "join sep (x # y # ys) = x @ sep @ join sep (y # ys)"

definition json_dumps :: "(pystr \<times> pystr) list \<Rightarrow> pystr" where
  "json_dumps d =
     [123] @ join (lit '', '') (map (\<lambda>(k, v). json_string k @ lit '': '' @ json_string v) d) @ [125]"

definition response_of :: "runtime \<Rightarrow> int \<Rightarrow> (pystr \<times> pystr) list \<Rightarrow> response" where
  \<comment> \<open>\<open>_response\<close>\<close>
  "response_of rt status_code b =
     \<lparr>statusCode = status_code, headers = get_cors_headers rt, body = json_dumps b\<rparr>"

section \<open>The email pattern\<close>

text \<open>
  \<open>re.match(r"^[^@\s]+@[^@\s]+\.[^@\s]+$", email)\<close>. The pattern is a sequence of items,
  matched from the left with backtracking. \<open>^\<close> holds at position 0; \<open>$\<close> holds at the end
  of the string and also just before a newline that ends the string; \<open>re.match\<close> asks for a
  match that starts at position 0, not for one that covers the string.
\<close>

datatype rx = Bol | Eol | Lit nat | Plus "nat \<Rightarrow> bool"

fun rx_match :: "rx list \<Rightarrow> nat \<Rightarrow> pystr \<Rightarrow> bool" where
  "rx_match [] pos s = True"
| "rx_match (Bol # r) pos s = (pos = 0 \<and> rx_match r pos s)"
| "rx_match (Eol # r) pos s = ((s = [] \<or> s = [10]) \<and> rx_match r pos s)"
| "rx_match (Lit c # r) pos [] = False"
| "rx_match (Lit c # r) pos (x # xs) = (x = c \<and> rx_match r (Suc pos) xs)"
| "rx_match (Plus P # r) pos [] = False"
| "rx_match (Plus P # r) pos (x # xs) =
     (P x \<and> (rx_match (Plus P # r) (Suc pos) xs \<or> rx_match r (Suc pos) xs))"

definition is_space :: "nat \<Rightarrow> bool" where
  \<comment> \<open>\<open>\s\<close> in a \<open>str\<close> pattern: the code points for which \<open>str.isspace\<close> holds.\<close>
  "is_space c =
     ((9 \<le> c \<and> c \<le> 13) \<or> (28 \<le> c \<and> c \<le> 32) \<or> c = 133 \<or> c = 160 \<or> c = 5760
      \<or> (8192 \<le> c \<and> c \<le> 8202) \<or> c = 8232 \<or> c = 8233 \<or> c = 8239 \<or> c = 8287 \<or> c = 12288)"

definition not_at_space :: "nat \<Rightarrow> bool" where
  \<comment> \<open>\<open>[^@\s]\<close>\<close>
  "not_at_space c = (c \<noteq> 64 \<and> \<not> is_space c)"

definition email_pattern :: "rx list" where
  "email_pattern =
     [Bol, Plus not_at_space, Lit 64, Plus not_at_space, Lit 46, Plus not_at_space, Eol]"

definition is_valid_email :: "pystr \<Rightarrow> bool" where
  "is_valid_email email = rx_match email_pattern 0 email"

section \<open>\<open>urllib.parse.parse_qs\<close>\<close>

text \<open>
  The library function as the handler calls it (Python 3.10 and later): separator \<open>&\<close>,
  blank values dropped, no strict parsing, \<open>+\<close> read as a space, percent-escapes decoded as
  UTF-8 with \<open>errors="replace"\<close>.
\<close>

definition lo2 :: "nat \<Rightarrow> nat" where
  \<comment> \<open>least second byte after the lead byte of a multi-byte sequence\<close>
  "lo2 b = (if b = 224 then 160 else if b = 240 then 144 else 128)"

definition hi2 :: "nat \<Rightarrow> nat" where
  "hi2 b = (if b = 237 then 159 else if b = 244 then 143 else 191)"

definition is_cont :: "nat \<Rightarrow> bool" where
  "is_cont b = (128 \<le> b \<and> b \<le> 191)"

fun utf8_decode_replace :: "nat list \<Rightarrow> pystr" where
  "utf8_decode_replace [] = []"
| "utf8_decode_replace (b # bs) =
     (if b < 128 then b # utf8_decode_replace bs
      else if 194 \<le> b \<and> b \<le> 223 then
        (case bs of
           [] \<Rightarrow> [65533]
         | c1 # r1 \<Rightarrow>
             if is_cont c1 then ((b - 192) * 64 + (c1 - 128)) # utf8_decode_replace r1
             else 65533 # utf8_decode_replace bs)
      else if 224 \<le> b \<and> b \<le> 239 then
        (case bs of
           [] \<Rightarrow> [65533]
         | c1 # r1 \<Rightarrow>
             if lo2 b \<le> c1 \<and> c1 \<le> hi2 b then
               (case r1 of
                  [] \<Rightarrow> [65533]
                | c2 # r2 \<Rightarrow>
                    if is_cont c2
                    then (((b - 224) * 64 + (c1 - 128)) * 64 + (c2 - 128)) # utf8_decode_replace r2
                    else 65533 # utf8_decode_replace r1)
             else 65533 # utf8_decode_replace bs)
      else if 240 \<le> b \<and> b \<le> 244 then
        (case bs of
           [] \<Rightarrow> [65533]
         | c1 # r1 \<Rightarrow>
             if lo2 b \<le> c1 \<and> c1 \<le> hi2 b then
               (case r1 of
                  [] \<Rightarrow> [65533]
                | c2 # r2 \<Rightarrow>
                    if is_cont c2 then
                      (case r2 of
                         [] \<Rightarrow> [65533]
                       | c3 # r3 \<Rightarrow>
                           if is_cont c3
                           then ((((b - 240) * 64 + (c1 - 128)) * 64 + (c2 - 128)) * 64 + (c3 - 128))
                                # utf8_decode_replace r3
                           else 65533 # utf8_decode_replace r2)
                    else 65533 # utf8_decode_replace r1)
             else 65533 # utf8_decode_replace bs)
      else 65533 # utf8_decode_replace bs)"

definition hexval :: "nat \<Rightarrow> nat option" where
  "hexval c =
     (if 48 \<le> c \<and> c \<le> 57 then Some (c - 48)
      else if 65 \<le> c \<and> c \<le> 70 then Some (c - 55)
      else if 97 \<le> c \<and> c \<le> 102 then Some (c - 87)
      else None)"

fun unquote_to_bytes :: "pystr \<Rightarrow> nat list" where
  "unquote_to_bytes (c # h1 # h2 # r) =
     (case (c = 37, hexval h1, hexval h2) of
        (True, Some a, Some b) \<Rightarrow> (16 * a + b) # unquote_to_bytes r
      | _ \<Rightarrow> c # unquote_to_bytes (h1 # h2 # r))"
| "unquote_to_bytes cs = cs"

fun unquote_runs :: "pystr \<Rightarrow> pystr \<Rightarrow> pystr" where
  \<comment> \<open>each maximal run of ASCII characters is percent-decoded; the second argument is the
      run read so far, reversed\<close>
  "unquote_runs [] run = utf8_decode_replace (unquote_to_bytes (rev run))"
| "unquote_runs (c # cs) run =
     (if c < 128 then unquote_runs cs (c # run)
      else utf8_decode_replace (unquote_to_bytes (rev run)) @ c # unquote_runs cs [])"

definition unquote :: "pystr \<Rightarrow> pystr" where
  "unquote s = (if 37 \<notin> set s then s else unquote_runs s [])"

fun split_on :: "nat \<Rightarrow> pystr \<Rightarrow> pystr \<Rightarrow> pystr list" where
  \<comment> \<open>\<open>s.split(sep)\<close>; the last argument is the piece read so far, reversed\<close>
  "split_on sep [] cur = [rev cur]"
| "split_on sep (c # cs) cur =
     (if c = sep then rev cur # split_on sep cs [] else split_on sep cs (c # cur))"

definition plus_to_space :: "pystr \<Rightarrow> pystr" where
  "plus_to_space s = map (\<lambda>c. if c = 43 then 32 else c) s"

definition parse_field :: "pystr \<Rightarrow> (pystr \<times> pystr) list" where
  \<comment> \<open>one iteration of the loop of \<open>parse_qsl\<close>: no pair or one pair\<close>
  "parse_field name_value =
     (if name_value = [] then []
      else if 61 \<notin> set name_value then []
      else
        (let n = takeWhile (\<lambda>c. c \<noteq> 61) name_value;
             v = tl (dropWhile (\<lambda>c. c \<noteq> 61) name_value)
         in if v \<noteq> [] then [(unquote (plus_to_space n), unquote (plus_to_space v))] else []))"

definition parse_qsl :: "pystr \<Rightarrow> (pystr \<times> pystr) list" where
  "parse_qsl qs = concat (map parse_field (split_on 38 qs []))"

fun qs_add :: "(pystr \<times> pystr list) list \<Rightarrow> pystr \<Rightarrow> pystr \<Rightarrow> (pystr \<times> pystr list) list" where
  "qs_add [] n v = [(n, [v])]"
| "qs_add ((k, vs) # d) n v = (if k = n then (k, vs @ [v]) # d else (k, vs) # qs_add d n v)"

definition parse_qs :: "pystr \<Rightarrow> (pystr \<times> pystr list) list" where
  "parse_qs qs = foldl (\<lambda>d (n, v). qs_add d n v) [] (parse_qsl qs)"


section \<open>\<open>json.loads\<close>\<close>

text \<open>
  The library's decoder on a \<open>str\<close>, with its defaults (strict strings, \<open>NaN\<close> and the
  infinities accepted): the text is cut into tokens, and the tokens are read by a machine
  with a stack of open arrays and objects. \<open>None\<close> is \<open>json.JSONDecodeError\<close>. The
  limits of the interpreter are left out: the recursion limit, which very deep nesting
  reaches, and the limit on the number of digits of an integer.
\<close>

datatype token = TLBrace | TRBrace | TLBrack | TRBrack | TComma | TColon | TVal pyval

definition is_digit :: "nat \<Rightarrow> bool" where
  "is_digit c = (48 \<le> c \<and> c \<le> 57)"

definition hex4 :: "pystr \<Rightarrow> nat option" where
  "hex4 s =
     (case s of
        a # b # c # d # _ \<Rightarrow>
          (case (hexval a, hexval b, hexval c, hexval d) of
             (Some w, Some x, Some y, Some z) \<Rightarrow> Some (((w * 16 + x) * 16 + y) * 16 + z)
           | _ \<Rightarrow> None)
      | _ \<Rightarrow> None)"

definition simple_escape :: "nat \<Rightarrow> nat option" where
  "simple_escape e =
     (if e = 34 \<or> e = 92 \<or> e = 47 then Some e
      else if e = 98 then Some 8
      else if e = 102 then Some 12
      else if e = 110 then Some 10
      else if e = 114 then Some 13
      else if e = 116 then Some 9
      else None)"

function scanstring :: "pystr \<Rightarrow> pystr \<Rightarrow> (pystr \<times> pystr) option" where
  "scanstring [] acc = None"
| "scanstring (c # cs) acc =
     (if c = 34 then Some (rev acc, cs)
      else if c < 32 then None
      else if c \<noteq> 92 then scanstring cs (c # acc)
      else
        (case cs of
           [] \<Rightarrow> None
         | e # r \<Rightarrow>
             if e \<noteq> 117 then
               (case simple_escape e of None \<Rightarrow> None | Some x \<Rightarrow> scanstring r (x # acc))
             else
               (case hex4 r of
                  None \<Rightarrow> None
                | Some h \<Rightarrow>
                    if 55296 \<le> h \<and> h \<le> 56319 \<and> is_prefix [92, 117] (drop 4 r) then
                      (case hex4 (drop 6 r) of
                         None \<Rightarrow> None
                       | Some l \<Rightarrow>
                           if 56320 \<le> l \<and> l \<le> 57343
                           then scanstring (drop 10 r)
                                  ((65536 + (h - 55296) * 1024 + (l - 56320)) # acc)
                           else scanstring (drop 4 r) (h # acc))
                    else scanstring (drop 4 r) (h # acc))))"
  by pat_completeness auto
termination
  by (relation "measure (\<lambda>(s, acc). length s)") auto

lemma scanstring_length: "scanstring s acc = Some (v, r) \<Longrightarrow> length r < length s"
proof (induction s acc arbitrary: v r rule: scanstring.induct)
  case (1 acc)
  then show ?case by simp
next
  case (2 c cs acc)
  show ?case
    using "2.prems" "2.IH"
    by (simp split: if_splits list.splits option.splits) force+
qed

definition nat_of_digits :: "pystr \<Rightarrow> nat" where
  "nat_of_digits ds = foldl (\<lambda>a c. 10 * a + (c - 48)) 0 ds"

definition match_exponent :: "pystr \<Rightarrow> int option \<times> pystr" where
  \<comment> \<open>\<open>([eE][-+]?\d+)?\<close>\<close>
  "match_exponent s =
     (case s of
        [] \<Rightarrow> (None, s)
      | e # r \<Rightarrow>
          if e \<noteq> 101 \<and> e \<noteq> 69 then (None, s)
          else
            (let (sg, ds) =
                   (case r of
                      [] \<Rightarrow> (1, r)
                    | c # r' \<Rightarrow> if c = 45 then (- 1, r') else if c = 43 then (1, r') else (1, r))
             in if takeWhile is_digit ds = [] then (None, s)
                else (Some (sg * int (nat_of_digits (takeWhile is_digit ds))),
                      dropWhile is_digit ds)))"

definition match_fraction :: "pystr \<Rightarrow> pystr \<times> pystr" where
  \<comment> \<open>\<open>(\.\d+)?\<close>: the digits of the fraction, none when the group does not match\<close>
  "match_fraction s =
     (case s of
        [] \<Rightarrow> ([], s)
      | p # r \<Rightarrow>
          if p = 46 \<and> takeWhile is_digit r \<noteq> [] then (takeWhile is_digit r, dropWhile is_digit r)
          else ([], s))"

definition match_integer :: "pystr \<Rightarrow> (pystr \<times> pystr) option" where
  \<comment> \<open>\<open>(0|[1-9]\d*)\<close>\<close>
  "match_integer s =
     (case s of
        [] \<Rightarrow> None
      | d # r \<Rightarrow>
          if d = 48 then Some ([d], r)
          else if is_digit d then Some (d # takeWhile is_digit r, dropWhile is_digit r)
          else None)"

definition match_number :: "pystr \<Rightarrow> (pyval \<times> pystr) option" where
  "match_number s =
     (let neg = is_prefix [45] s;
          s1 = (if neg then tl s else s)
      in case match_integer s1 of
           None \<Rightarrow> None
         | Some (ip, s2) \<Rightarrow>
             (let (fp, s3) = match_fraction s2;
                  (ex, s4) = match_exponent s3
              in if fp = [] \<and> ex = None
                 then Some (PInt ((if neg then - 1 else 1) * int (nat_of_digits ip)), s4)
                 else Some (PFloat (FDec neg (nat_of_digits (ip @ fp))
                                      ((case ex of None \<Rightarrow> 0 | Some e \<Rightarrow> e) - int (length fp))),
                            s4)))"

lemma match_exponent_length: "match_exponent s = (ex, r) \<Longrightarrow> length r \<le> length s"
  by (auto simp: match_exponent_def Let_def split: list.splits if_splits
           intro: le_trans [OF length_dropWhile_le])

lemma match_fraction_length: "match_fraction s = (fp, r) \<Longrightarrow> length r \<le> length s"
  by (auto simp: match_fraction_def split: list.splits if_splits
           intro: le_trans [OF length_dropWhile_le])

lemma match_integer_length: "match_integer s = Some (ip, r) \<Longrightarrow> length r < length s"
  by (auto simp: match_integer_def split: list.splits if_splits
           intro: le_imp_less_Suc [OF length_dropWhile_le])

lemma match_number_length: "match_number s = Some (v, r) \<Longrightarrow> length r < length s"
  by (auto simp: match_number_def Let_def split: option.splits prod.splits if_splits
           dest!: match_exponent_length match_fraction_length match_integer_length)

function lex :: "pystr \<Rightarrow> token list option" where
  "lex [] = Some []"
| "lex (c # cs) =
     (if c = 32 \<or> c = 9 \<or> c = 10 \<or> c = 13 then lex cs
      else if c = 123 then map_option ((#) TLBrace) (lex cs)
      else if c = 125 then map_option ((#) TRBrace) (lex cs)
      else if c = 91 then map_option ((#) TLBrack) (lex cs)
      else if c = 93 then map_option ((#) TRBrack) (lex cs)
      else if c = 44 then map_option ((#) TComma) (lex cs)
      else if c = 58 then map_option ((#) TColon) (lex cs)
      else if c = 34 then
        (case scanstring cs [] of
           None \<Rightarrow> None
         | Some (s, r) \<Rightarrow> map_option ((#) (TVal (PStr s))) (lex r))
      else if is_prefix (lit ''null'') (c # cs) then
        map_option ((#) (TVal PNone)) (lex (drop 3 cs))
      else if is_prefix (lit ''true'') (c # cs) then
        map_option ((#) (TVal (PBool True))) (lex (drop 3 cs))
      else if is_prefix (lit ''false'') (c # cs) then
        map_option ((#) (TVal (PBool False))) (lex (drop 4 cs))
      else if is_prefix (lit ''NaN'') (c # cs) then
        map_option ((#) (TVal (PFloat FNaN))) (lex (drop 2 cs))
      else if is_prefix (lit ''Infinity'') (c # cs) then
        map_option ((#) (TVal (PFloat (FInf False)))) (lex (drop 7 cs))
      else if is_prefix (lit ''-Infinity'') (c # cs) then
        map_option ((#) (TVal (PFloat (FInf True)))) (lex (drop 8 cs))
      else
        (case match_number (c # cs) of
           None \<Rightarrow> None
         | Some (v, r) \<Rightarrow> map_option ((#) (TVal v)) (lex r)))"
  by pat_completeness auto
termination
  by (relation "measure length")
     (auto dest: scanstring_length match_number_length)

datatype frame = FArr "pyval list" | FObj pydict "pystr option"

datatype phase = WantValue | WantFirst | WantKey | WantColon | WantNext

datatype jstate = Open "frame list" phase | Done pyval

definition deliver :: "frame list \<Rightarrow> pyval \<Rightarrow> jstate option" where
  \<comment> \<open>a value is complete: it is the result, or it goes into the innermost open container\<close>
  "deliver st v =
     (case st of
        [] \<Rightarrow> Some (Done v)
      | FArr acc # r \<Rightarrow> Some (Open (FArr (v # acc) # r) WantNext)
      | FObj d (Some k) # r \<Rightarrow> Some (Open (FObj (dict_set d k v) None # r) WantNext)
      | FObj d None # r \<Rightarrow> None)"

definition begin_value :: "frame list \<Rightarrow> token \<Rightarrow> jstate option" where
  "begin_value st t =
     (case t of
        TVal v \<Rightarrow> deliver st v
      | TLBrack \<Rightarrow> Some (Open (FArr [] # st) WantFirst)
      | TLBrace \<Rightarrow> Some (Open (FObj [] None # st) WantFirst)
      | _ \<Rightarrow> None)"

definition begin_key :: "frame list \<Rightarrow> token \<Rightarrow> jstate option" where
  "begin_key st t =
     (case (st, t) of
        (FObj d None # r, TVal (PStr k)) \<Rightarrow> Some (Open (FObj d (Some k) # r) WantColon)
      | _ \<Rightarrow> None)"

definition close :: "frame list \<Rightarrow> token \<Rightarrow> jstate option" where
  "close st t =
     (case (st, t) of
        (FArr acc # r, TRBrack) \<Rightarrow> deliver r (PList (rev acc))
      | (FObj d None # r, TRBrace) \<Rightarrow> deliver r (PDict d)
      | _ \<Rightarrow> None)"

definition step :: "jstate \<Rightarrow> token \<Rightarrow> jstate option" where
  "step js t =
     (case js of
        Done v \<Rightarrow> None
      | Open st WantValue \<Rightarrow> begin_value st t
      | Open st WantFirst \<Rightarrow>
          (if t = TRBrack \<or> t = TRBrace then close st t
           else (case st of FObj d k # r \<Rightarrow> begin_key st t | _ \<Rightarrow> begin_value st t))
      | Open st WantKey \<Rightarrow> begin_key st t
      | Open st WantColon \<Rightarrow> (if t = TColon then Some (Open st WantValue) else None)
      | Open st WantNext \<Rightarrow>
          (if t = TComma
           then (case st of
                   FArr acc # r \<Rightarrow> Some (Open st WantValue)
                 | FObj d k # r \<Rightarrow> Some (Open st WantKey)
                 | [] \<Rightarrow> None)
           else close st t))"

fun run :: "jstate \<Rightarrow> token list \<Rightarrow> jstate option" where
  "run js [] = Some js"
| "run js (t # ts) = (case step js t of None \<Rightarrow> None | Some js' \<Rightarrow> run js' ts)"

definition json_loads :: "pystr \<Rightarrow> pyval option" where
  "json_loads s =
     (case lex s of
        None \<Rightarrow> None
      | Some ts \<Rightarrow> (case run (Open [] WantValue) ts of Some (Done v) \<Rightarrow> Some v | _ \<Rightarrow> None))"

section \<open>Parsing the body\<close>

definition event_headers :: "pydict \<Rightarrow> pyval" where
  \<comment> \<open>\<open>event.get("headers", {}) or {}\<close>\<close>
  "event_headers event =
     (let h = (case map_of event (lit ''headers'') of None \<Rightarrow> PDict [] | Some v \<Rightarrow> v)
      in if truthy h then h else PDict [])"

definition content_type :: "runtime \<Rightarrow> pydict \<Rightarrow> exn + pyval" where
  \<comment> \<open>the first line of \<open>_parse_body\<close>: two lookups, by the two spellings, then the default\<close>
  "content_type rt event =
     (case py_get rt (event_headers event) (lit ''content-type'') PNone of
        Inl e \<Rightarrow> Inl e
      | Inr c1 \<Rightarrow>
          if truthy c1 then Inr c1
          else
            (case py_get rt (event_headers event) (lit ''Content-Type'') PNone of
               Inl e \<Rightarrow> Inl e
             | Inr c2 \<Rightarrow> if truthy c2 then Inr c2 else Inr (PStr (lit ''application/json''))))"

definition raw_body :: "runtime \<Rightarrow> pydict \<Rightarrow> exn + pyval" where
  \<comment> \<open>\<open>event.get("body") or ""\<close>, decoded when \<open>isBase64Encoded\<close> is truthy\<close>
  "raw_body rt event =
     (let b = dict_get event (lit ''body'');
          raw = (if truthy b then b else PStr [])
      in if truthy (dict_get event (lit ''isBase64Encoded'')) then
           (case raw of
              PStr s \<Rightarrow>
                (case b64decode_utf8 rt s of
                   Inl msg \<Rightarrow> Inl (ValueError msg)
                 | Inr t \<Rightarrow> Inr (PStr t))
            | _ \<Rightarrow> Inl (OtherException (type_error_text rt raw)))
         else Inr raw)"

definition py_in :: "runtime \<Rightarrow> pystr \<Rightarrow> pyval \<Rightarrow> exn + bool" where
  \<comment> \<open>\<open>needle in v\<close> for a \<open>str\<close> needle: substring of a string, element of a list, key of a
      dict, \<open>TypeError\<close> on anything else\<close>
  "py_in rt needle v =
     (case v of
        PStr s \<Rightarrow> Inr (contains needle s)
      | PList xs \<Rightarrow> Inr (PStr needle \<in> set xs)
      | PDict d \<Rightarrow> Inr (needle \<in> fst ` set d)
      | _ \<Rightarrow> Inl (OtherException (type_error_text rt v)))"

definition first_values :: "(pystr \<times> pystr list) list \<Rightarrow> pydict" where
  \<comment> \<open>\<open>{k: v[0] if isinstance(v, list) and v else v for k, v in ...}\<close>\<close>
  "first_values d = map (\<lambda>(k, v). (k, case v of [] \<Rightarrow> PList [] | x # _ \<Rightarrow> PStr x)) d"

definition parse_body :: "runtime \<Rightarrow> pydict \<Rightarrow> exn + (pydict \<times> pystr)" where
  "parse_body rt event =
     (case content_type rt event of
        Inl e \<Rightarrow> Inl e
      | Inr ct \<Rightarrow>
     (case raw_body rt event of
        Inl e \<Rightarrow> Inl e
      | Inr raw \<Rightarrow>
     (case py_in rt (lit ''application/x-www-form-urlencoded'') ct of
        Inl e \<Rightarrow> Inl e
      | Inr True \<Rightarrow>
          (case raw of
             PStr s \<Rightarrow> Inr (first_values (parse_qs s), lit ''form'')
           | _ \<Rightarrow> Inl (OtherException (type_error_text rt raw)))
      | Inr False \<Rightarrow>
          (case (if truthy raw then
                   (case raw of
                      PStr s \<Rightarrow>
                        (case json_loads s of
                           None \<Rightarrow> Inl (ValueError (lit ''Invalid JSON in request body''))
                         | Some v \<Rightarrow> Inr v)
                    | _ \<Rightarrow> Inl (OtherException (type_error_text rt raw)))
                 else Inr (PDict [])) of
             Inl e \<Rightarrow> Inl e
           | Inr (PDict d) \<Rightarrow> Inr (d, lit ''json'')
           | Inr _ \<Rightarrow> Inl (ValueError (lit ''Request JSON must be an object''))))))"

section \<open>Validation\<close>

definition required_fields :: "pystr list" where
  "required_fields = [lit ''name'', lit ''email'']"

fun missing_field :: "pydict \<Rightarrow> pystr list \<Rightarrow> pystr option" where
  \<comment> \<open>the loop over \<open>required_fields\<close>: the first field whose value is falsy\<close>
  "missing_field payload [] = None"
| "missing_field payload (field # others) =
     (if \<not> truthy (dict_get payload field) then Some field else missing_field payload others)"

definition validate_payload :: "runtime \<Rightarrow> pydict \<Rightarrow> bool \<times> pystr" where
  "validate_payload rt payload =
     (case missing_field payload required_fields of
        Some field \<Rightarrow> (False, lit ''Missing required field: '' @ field)
      | None \<Rightarrow>
          if \<not> is_valid_email (py_str rt (dict_get payload (lit ''email'')))
          then (False, lit ''Invalid email format'')
          else (True, []))"

section \<open>The store\<close>

text \<open>
  The table lives in Amazon DynamoDB, outside the repository. It is modelled by what
  \<open>PutItem\<close> with the condition \<open>attribute_not_exists(a)\<close> does on a table with one string
  partition key: the request is refused when the table does not exist, when the item has no
  value or an empty value for the key, and when the stored item with the same key value has
  the attribute \<open>a\<close>; otherwise the item is stored under its key value. The store also keeps
  the list of the requests it received.
\<close>

type_synonym item = "(pystr \<times> pystr) list"

record table =
  key_attr :: pystr
  rows :: "item list"

record dynamodb =
  tables :: "(pystr \<times> table) list"
  calls :: "(pystr \<times> item) list"

definition conditional_put :: "table \<Rightarrow> item \<Rightarrow> pystr \<Rightarrow> pystr + table" where
  "conditional_put t it a =
     (case map_of it (key_attr t) of
        None \<Rightarrow>
          Inl (lit ''An error occurred (ValidationException) when calling the PutItem operation: One or more parameter values were invalid: Missing the key '' @ key_attr t @ lit '' in the item'')
      | Some k \<Rightarrow>
          if k = [] then
            Inl (lit ''An error occurred (ValidationException) when calling the PutItem operation: One or more parameter values are not valid. The AttributeValue for a key attribute cannot contain an empty string value. Key: '' @ key_attr t)
          else
            (case find (\<lambda>r. map_of r (key_attr t) = Some k) (rows t) of
               None \<Rightarrow> Inr (t\<lparr>rows := rows t @ [it]\<rparr>)
             | Some r \<Rightarrow>
                 if a \<in> fst ` set r then
                   Inl (lit ''An error occurred (ConditionalCheckFailedException) when calling the PutItem operation: The conditional request failed'')
                 else
                   Inr (t\<lparr>rows := map (\<lambda>r'. if map_of r' (key_attr t) = Some k then it else r')
                                    (rows t)\<rparr>)))"

definition put_item :: "dynamodb \<Rightarrow> pystr \<Rightarrow> item \<Rightarrow> exn option \<times> dynamodb" where
  \<comment> \<open>\<open>_put_item\<close>: one request to the store, with the condition on \<open>userId\<close>\<close>
  "put_item db table_name it =
     (let db1 = db\<lparr>calls := calls db @ [(table_name, it)]\<rparr>
      in case map_of (tables db) table_name of
           None \<Rightarrow>
             (Some (ClientError (lit ''An error occurred (ResourceNotFoundException) when calling the PutItem operation: Requested resource not found'')),
              db1)
         | Some t \<Rightarrow>
             (case conditional_put t it (lit ''userId'') of
                Inl msg \<Rightarrow> (Some (ClientError msg), db1)
              | Inr t' \<Rightarrow> (None, db1\<lparr>tables := dict_set (tables db) table_name t'\<rparr>)))"

section \<open>The handler\<close>

definition request_method :: "runtime \<Rightarrow> pydict \<Rightarrow> exn + pyval" where
  \<comment> \<open>\<open>event.get("httpMethod") or event.get("requestContext", {}).get("http", {}).get("method")\<close>\<close>
  "request_method rt event =
     (let m = dict_get event (lit ''httpMethod'')
      in if truthy m then Inr m
         else
           (case py_get rt
                   (case map_of event (lit ''requestContext'') of None \<Rightarrow> PDict [] | Some v \<Rightarrow> v)
                   (lit ''http'') (PDict []) of
              Inl e \<Rightarrow> Inl e
            | Inr h \<Rightarrow> py_get rt h (lit ''method'') PNone))"

definition make_item :: "runtime \<Rightarrow> pydict \<Rightarrow> pystr \<Rightarrow> (pystr \<times> pystr option) list" where
  \<comment> \<open>the dict literal \<open>item\<close> of \<open>lambda_handler\<close>, with \<open>None\<close> for an absent optional field\<close>
  "make_item rt payload source_type =
     [(lit ''userId'', Some (uuid4 rt)),
      (lit ''name'', Some (py_str rt (dict_get payload (lit ''name'')))),
      (lit ''email'', Some (py_str rt (dict_get payload (lit ''email'')))),
      (lit ''message'',
         if dict_get payload (lit ''message'') \<noteq> PNone
         then Some (py_str rt (dict_get payload (lit ''message''))) else None),
      (lit ''phone'',
         if dict_get payload (lit ''phone'') \<noteq> PNone
         then Some (py_str rt (dict_get payload (lit ''phone''))) else None),
      (lit ''sourceType'', Some source_type),
      (lit ''createdAt'', Some (utcnow_iso rt)),
      (lit ''updatedAt'', Some (utcnow_iso rt))]"

definition without_none :: "(pystr \<times> pystr option) list \<Rightarrow> item" where
  \<comment> \<open>\<open>{k: v for k, v in item.items() if v is not None}\<close>\<close>
  "without_none it = concat (map (\<lambda>(k, v). case v of None \<Rightarrow> [] | Some x \<Rightarrow> [(k, x)]) it)"

definition submit :: "runtime \<Rightarrow> dynamodb \<Rightarrow> pydict \<Rightarrow> pystr \<Rightarrow> (exn + response) \<times> dynamodb" where
  \<comment> \<open>the body of the \<open>try\<close> statement of \<open>lambda_handler\<close>; \<open>Inl\<close> is the exception it raises\<close>
  "submit rt db event table_name =
     (case parse_body rt event of
        Inl e \<Rightarrow> (Inl e, db)
      | Inr (payload, source_type) \<Rightarrow>
          (case validate_payload rt payload of
             (False, error_msg) \<Rightarrow> (Inr (response_of rt 400 [(lit ''message'', error_msg)]), db)
           | (True, _) \<Rightarrow>
               (case put_item db table_name (without_none (make_item rt payload source_type)) of
                  (Some e, db') \<Rightarrow> (Inl e, db')
                | (None, db') \<Rightarrow>
                    (Inr (response_of rt 201
                            [(lit ''message'', lit ''Submitted''), (lit ''userId'', uuid4 rt)]),
                     db'))))"

definition lambda_handler :: "runtime \<Rightarrow> dynamodb \<Rightarrow> pydict \<Rightarrow> (exn + response) \<times> dynamodb" where
  \<comment> \<open>\<open>Inl\<close> is an exception that leaves the handler: only the reading of the method, which is
      outside the \<open>try\<close> statement, can raise one\<close>
  "lambda_handler rt db event =
     (case request_method rt event of
        Inl e \<Rightarrow> (Inl e, db)
      | Inr m \<Rightarrow>
          if m = PStr (lit ''OPTIONS'') then (Inr (response_of rt 204 []), db)
          else
            (case getenv rt (lit ''TABLE_NAME'') of
               None \<Rightarrow>
                 (Inr (response_of rt 500
                         [(lit ''message'', lit ''Server misconfiguration: TABLE_NAME is not set'')]),
                  db)
             | Some table_name \<Rightarrow>
                 if table_name = [] then
                   (Inr (response_of rt 500
                           [(lit ''message'', lit ''Server misconfiguration: TABLE_NAME is not set'')]),
                    db)
                 else
                   (case submit rt db event table_name of
                      (Inr r, db') \<Rightarrow> (Inr r, db')
                    | (Inl (ValueError msg), db') \<Rightarrow>
                        (Inr (response_of rt 400 [(lit ''message'', msg)]), db')
                    | (Inl (ClientError msg), db') \<Rightarrow>
                        (Inr (response_of rt 500
                                [(lit ''message'', lit ''DynamoDB error''), (lit ''detail'', msg)]),
                         db')
                    | (Inl (OtherException msg), db') \<Rightarrow>
                        (Inr (response_of rt 500
                                [(lit ''message'', lit ''Internal server error''),
                                 (lit ''detail'', msg)]),
                         db'))))"

section \<open>Example surroundings and requests\<close>

text \<open>
  The decoder of the example runtime stands for the library's at two inputs only:
  \<open>base64.b64decode("bmFtZT1Kbw==")\<close> is \<open>b"name=Jo"\<close>, and \<open>base64.b64decode("ab")\<close>
  raises \<open>binascii.Error: Incorrect padding\<close>. The examples call it on \<open>ab\<close>.
\<close>


definition example_runtime :: runtime where
  "example_runtime =
     \<lparr>environ = [(lit ''TABLE_NAME'', lit ''submissions'')],
      uuid4 = lit ''3f2b8c1e-5d4a-4f6b-9c7d-1a2b3c4d5e6f'',
      utcnow_iso = lit ''2024-05-01T12:00:00+00:00'',
      b64decode_utf8 =
        (\<lambda>s. if s = lit ''bmFtZT1Kbw=='' then Inr (lit ''name=Jo'') else Inl (lit ''Incorrect padding'')),
      py_repr = (\<lambda>v. lit ''...''),
      type_error_text = (\<lambda>v. lit ''...'')\<rparr>"

definition unconfigured_runtime :: runtime where
  "unconfigured_runtime = example_runtime\<lparr>environ := []\<rparr>"

definition example_store :: dynamodb where
  "example_store =
     \<lparr>tables = [(lit ''submissions'', \<lparr>key_attr = lit ''userId'', rows = []\<rparr>)], calls = []\<rparr>"

definition preflight_event :: pydict where
  \<open>preflight_event =
     [(lit ''requestContext'', PDict [(lit ''http'', PDict [(lit ''method'', PStr (lit ''OPTIONS''))])]),
      (lit ''body'', PStr (lit ''{not json''))]\<close>

definition json_event :: "pystr \<Rightarrow> pydict" where
  "json_event b = [(lit ''httpMethod'', PStr (lit ''POST'')), (lit ''body'', PStr b)]"

definition form_event :: "pystr \<Rightarrow> pydict" where
  "form_event b =
     [(lit ''httpMethod'', PStr (lit ''POST'')),
      (lit ''headers'',
       PDict [(lit ''Content-Type'', PStr (lit ''application/x-www-form-urlencoded''))]),
      (lit ''body'', PStr b)]"

definition colliding_store :: dynamodb where
  "colliding_store =
     \<lparr>tables =
        [(lit ''submissions'',
          \<lparr>key_attr = lit ''userId'',
           rows = [[(lit ''userId'', lit ''3f2b8c1e-5d4a-4f6b-9c7d-1a2b3c4d5e6f''),
                    (lit ''name'', lit ''Al'')]]\<rparr>)],
      calls = []\<rparr>"

definition jo_payload :: pydict where
  "jo_payload = [(lit ''name'', PStr (lit ''Jo'')), (lit ''email'', PStr (lit ''jo@example.com''))]"

definition jo_record :: "pystr \<Rightarrow> item" where
  "jo_record source_type =
     [(lit ''userId'', lit ''3f2b8c1e-5d4a-4f6b-9c7d-1a2b3c4d5e6f''),
      (lit ''name'', lit ''Jo''),
      (lit ''email'', lit ''jo@example.com''),
      (lit ''sourceType'', source_type),
      (lit ''createdAt'', lit ''2024-05-01T12:00:00+00:00''),
      (lit ''updatedAt'', lit ''2024-05-01T12:00:00+00:00'')]"

definition store_with_id :: dynamodb where
  "store_with_id =
     \<lparr>tables =
        [(lit ''submissions'',
          \<lparr>key_attr = lit ''userId'',
           rows = [[(lit ''userId'', lit ''0a1b2c3d-0000-4000-8000-000000000000''),
                    (lit ''id'', lit ''3f2b8c1e-5d4a-4f6b-9c7d-1a2b3c4d5e6f'')]]\<rparr>)],
      calls = []\<rparr>"

definition headed_event :: "pystr \<Rightarrow> pystr \<Rightarrow> pystr \<Rightarrow> pydict" where
  \<comment> \<open>a POST whose only header has the given key and value\<close>
  "headed_event key val b =
     [(lit ''httpMethod'', PStr (lit ''POST'')),
      (lit ''headers'', PDict [(key, PStr val)]),
      (lit ''body'', PStr b)]"

definition base64_form_event :: "pystr \<Rightarrow> pydict" where
  "base64_form_event b =
     [(lit ''httpMethod'', PStr (lit ''POST'')),
      (lit ''headers'',
       PDict [(lit ''Content-Type'', PStr (lit ''application/x-www-form-urlencoded''))]),
      (lit ''isBase64Encoded'', PBool True),
      (lit ''body'', PStr b)]"

text \<open>
  The shape of an email address in the words of the specification: a non-empty run of
  characters that are neither \<open>@\<close> nor white space, \<open>@\<close>, a second such run, a dot, a third
  such run, and nothing before or after.
\<close>

definition spec_email_shape :: "pystr \<Rightarrow> bool" where
  "spec_email_shape e =
     (\<exists>l d t. e = l @ [64] @ d @ [46] @ t \<and> l \<noteq> [] \<and> d \<noteq> [] \<and> t \<noteq> []
        \<and> list_all not_at_space l \<and> list_all not_at_space d \<and> list_all not_at_space t)"

section \<open>Properties\<close>

lemmas parse_defs = parse_body_def content_type_def raw_body_def event_headers_def py_in_def
  py_get_def dict_get_def truthy_def first_values_def

lemmas qs_defs = parse_qs_def parse_qsl_def parse_field_def unquote_def plus_to_space_def
  hexval_def

lemmas json_defs = json_loads_def match_number_def match_integer_def match_fraction_def
  match_exponent_def is_digit_def nat_of_digits_def step_def begin_value_def begin_key_def
  close_def deliver_def

lemmas validate_defs = validate_payload_def required_fields_def is_valid_email_def
  email_pattern_def not_at_space_def is_space_def py_str_def dict_get_def truthy_def

lemmas store_defs = put_item_def conditional_put_def make_item_def without_none_def
  dict_get_def

lemmas dumps_defs = response_of_def json_dumps_def json_string_def json_escape_char_def

subsection \<open>The stages of the handler\<close>

lemma json_dumps_empty: "json_dumps [] = lit ''{}''"
  by (simp add: json_dumps_def)

lemma handler_post:
  assumes "request_method rt event = Inr m" and "m \<noteq> PStr (lit ''OPTIONS'')"
    and "getenv rt (lit ''TABLE_NAME'') = Some tn" and "tn \<noteq> []"
  shows "lambda_handler rt db event =
           (case submit rt db event tn of
              (Inr r, db') \<Rightarrow> (Inr r, db')
            | (Inl (ValueError msg), db') \<Rightarrow> (Inr (response_of rt 400 [(lit ''message'', msg)]), db')
            | (Inl (ClientError msg), db') \<Rightarrow>
                (Inr (response_of rt 500
                        [(lit ''message'', lit ''DynamoDB error''), (lit ''detail'', msg)]), db')
            | (Inl (OtherException msg), db') \<Rightarrow>
                (Inr (response_of rt 500
                        [(lit ''message'', lit ''Internal server error''), (lit ''detail'', msg)]),
                 db'))"
  using assms by (simp add: lambda_handler_def)

lemma submit_parse_error:
  "parse_body rt event = Inl e \<Longrightarrow> submit rt db event tn = (Inl e, db)"
  by (simp add: submit_def)

lemma submit_invalid:
  "parse_body rt event = Inr (payload, st) \<Longrightarrow> validate_payload rt payload = (False, msg) \<Longrightarrow>
   submit rt db event tn = (Inr (response_of rt 400 [(lit ''message'', msg)]), db)"
  by (simp add: submit_def)

lemma submit_valid:
  "parse_body rt event = Inr (payload, st) \<Longrightarrow> validate_payload rt payload = (True, msg) \<Longrightarrow>
   submit rt db event tn =
     (case put_item db tn (without_none (make_item rt payload st)) of
        (Some e, db') \<Rightarrow> (Inl e, db')
      | (None, db') \<Rightarrow>
          (Inr (response_of rt 201 [(lit ''message'', lit ''Submitted''), (lit ''userId'', uuid4 rt)]),
           db'))"
  by (simp add: submit_def)

lemma validate_missing_name:
  "\<not> truthy (dict_get payload (lit ''name'')) \<Longrightarrow>
   validate_payload rt payload = (False, lit ''Missing required field: name'')"
  by (simp add: validate_payload_def required_fields_def)

lemma validate_missing_email:
  "truthy (dict_get payload (lit ''name'')) \<Longrightarrow> \<not> truthy (dict_get payload (lit ''email'')) \<Longrightarrow>
   validate_payload rt payload = (False, lit ''Missing required field: email'')"
  by (simp add: validate_payload_def required_fields_def)

lemma validate_bad_email:
  "truthy (dict_get payload (lit ''name'')) \<Longrightarrow> truthy (dict_get payload (lit ''email'')) \<Longrightarrow>
   \<not> is_valid_email (py_str rt (dict_get payload (lit ''email''))) \<Longrightarrow>
   validate_payload rt payload = (False, lit ''Invalid email format'')"
  by (simp add: validate_payload_def required_fields_def)

lemma validate_ok:
  "truthy (dict_get payload (lit ''name'')) \<Longrightarrow> truthy (dict_get payload (lit ''email'')) \<Longrightarrow>
   is_valid_email (py_str rt (dict_get payload (lit ''email''))) \<Longrightarrow>
   validate_payload rt payload = (True, [])"
  by (simp add: validate_payload_def required_fields_def)

lemma map_of_dict_set: "map_of (dict_set d k v) k = Some v"
  by (induction d k v rule: dict_set.induct) auto

lemma put_item_calls: "calls (snd (put_item db tn it)) = calls db @ [(tn, it)]"
  by (simp add: put_item_def Let_def split: option.splits sum.splits)

lemma conditional_put_stores:
  assumes "conditional_put t it a = Inr t'"
  shows "it \<in> set (rows t')"
proof -
  from assms obtain k where k: "map_of it (key_attr t) = Some k" "k \<noteq> []"
    by (auto simp: conditional_put_def split: option.splits if_splits)
  show ?thesis
  proof (cases "find (\<lambda>r. map_of r (key_attr t) = Some k) (rows t)")
    case None
    then show ?thesis using assms k by (auto simp: conditional_put_def)
  next
    case (Some r)
    then have "r \<in> set (rows t)" "map_of r (key_attr t) = Some k"
      by (auto simp: find_Some_iff)
    then show ?thesis using assms k Some
      by (force simp: conditional_put_def split: if_splits)
  qed
qed

lemma put_item_success:
  assumes "put_item db tn it = (None, db')"
  shows "calls db' = calls db @ [(tn, it)]"
    and "\<exists>t'. map_of (tables db') tn = Some t' \<and> it \<in> set (rows t')"
  using assms
  by (auto simp: put_item_def Let_def map_of_dict_set conditional_put_stores
           split: option.splits sum.splits)

subsection \<open>The email pattern and the shape the specification describes\<close>

lemma rx_match_Plus:
  "rx_match (Plus P # r) pos s
   \<longleftrightarrow> (\<exists>a b. s = a @ b \<and> a \<noteq> [] \<and> list_all P a \<and> rx_match r (pos + length a) b)"
proof (induction s arbitrary: pos)
  case Nil
  then show ?case by simp
next
  case (Cons x xs)
  show ?case
  proof
    assume "rx_match (Plus P # r) pos (x # xs)"
    then have px: "P x" and alt: "rx_match (Plus P # r) (Suc pos) xs \<or> rx_match r (Suc pos) xs"
      by simp_all
    from alt show "\<exists>a b. x # xs = a @ b \<and> a \<noteq> [] \<and> list_all P a \<and> rx_match r (pos + length a) b"
    proof
      assume "rx_match (Plus P # r) (Suc pos) xs"
      then obtain a b where "xs = a @ b" "a \<noteq> []" "list_all P a" "rx_match r (Suc pos + length a) b"
        using Cons.IH by blast
      then have "x # xs = (x # a) @ b \<and> x # a \<noteq> [] \<and> list_all P (x # a)
                 \<and> rx_match r (pos + length (x # a)) b"
        using px by simp
      then show ?thesis by blast
    next
      assume "rx_match r (Suc pos) xs"
      then have "x # xs = [x] @ xs \<and> [x] \<noteq> [] \<and> list_all P [x] \<and> rx_match r (pos + length [x]) xs"
        using px by simp
      then show ?thesis by blast
    qed
  next
    assume "\<exists>a b. x # xs = a @ b \<and> a \<noteq> [] \<and> list_all P a \<and> rx_match r (pos + length a) b"
    then obtain a b where ab: "x # xs = a @ b" "a \<noteq> []" "list_all P a" "rx_match r (pos + length a) b"
      by blast
    then obtain a' where a: "a = x # a'" "xs = a' @ b"
      by (cases a) auto
    show "rx_match (Plus P # r) pos (x # xs)"
    proof (cases "a' = []")
      case True
      then show ?thesis using ab a by simp
    next
      case False
      then have "rx_match (Plus P # r) (Suc pos) xs"
        using Cons.IH [of "Suc pos"] ab a by auto
      then show ?thesis using ab a by simp
    qed
  qed
qed

lemma rx_match_Lit:
  "rx_match (Lit c # r) pos s \<longleftrightarrow> (\<exists>s'. s = c # s' \<and> rx_match r (Suc pos) s')"
  by (cases s) auto

lemma is_valid_email_explicit:
  "is_valid_email e \<longleftrightarrow>
     (\<exists>l d t z. e = l @ [64] @ d @ [46] @ t @ z \<and> l \<noteq> [] \<and> d \<noteq> [] \<and> t \<noteq> []
        \<and> list_all not_at_space l \<and> list_all not_at_space d \<and> list_all not_at_space t
        \<and> (z = [] \<or> z = [10]))"
  unfolding is_valid_email_def email_pattern_def
  by (simp add: rx_match_Plus rx_match_Lit) blast

lemma is_valid_email_iff:
  "is_valid_email e \<longleftrightarrow> spec_email_shape e \<or> (\<exists>e'. e = e' @ [10] \<and> spec_email_shape e')"
proof
  assume "is_valid_email e"
  then obtain l d t z where
    e: "e = l @ [64] @ d @ [46] @ t @ z" and
    s: "l \<noteq> []" "d \<noteq> []" "t \<noteq> []" "list_all not_at_space l" "list_all not_at_space d"
       "list_all not_at_space t" and
    z: "z = [] \<or> z = [10]"
    unfolding is_valid_email_explicit by blast
  have shape: "spec_email_shape (l @ [64] @ d @ [46] @ t)"
    unfolding spec_email_shape_def using s by blast
  from z show "spec_email_shape e \<or> (\<exists>e'. e = e' @ [10] \<and> spec_email_shape e')"
  proof
    assume "z = []"
    then show ?thesis using e shape by simp
  next
    assume "z = [10]"
    then have "e = (l @ [64] @ d @ [46] @ t) @ [10]" using e by simp
    then show ?thesis using shape by blast
  qed
next
  assume "spec_email_shape e \<or> (\<exists>e'. e = e' @ [10] \<and> spec_email_shape e')"
  then show "is_valid_email e"
    unfolding is_valid_email_explicit spec_email_shape_def
    by (elim disjE exE conjE) (simp, blast)+
qed

lemma not_shape_trailing_newline: "\<not> spec_email_shape (e @ [10])"
proof
  assume "spec_email_shape (e @ [10])"
  then obtain l d t where
    e: "e @ [10] = l @ [64] @ d @ [46] @ t" and t: "t \<noteq> []" "list_all not_at_space t"
    unfolding spec_email_shape_def by blast
  from t have "not_at_space (last t)"
    by (simp add: list_all_iff)
  moreover have "last t = 10"
    using e t by (metis append_assoc last_appendR last_snoc)
  ultimately show False
    by (simp add: not_at_space_def is_space_def)
qed

lemma handler_parse_value_error:
  assumes "request_method rt event = Inr m" and "m \<noteq> PStr (lit ''OPTIONS'')"
    and "getenv rt (lit ''TABLE_NAME'') = Some tn" and "tn \<noteq> []"
    and "parse_body rt event = Inl (ValueError msg)"
  shows "lambda_handler rt db event = (Inr (response_of rt 400 [(lit ''message'', msg)]), db)"
  using handler_post [OF assms(1-4), of db] submit_parse_error [OF assms(5), of db tn]
  by simp

lemma handler_invalid:
  assumes "request_method rt event = Inr m" and "m \<noteq> PStr (lit ''OPTIONS'')"
    and "getenv rt (lit ''TABLE_NAME'') = Some tn" and "tn \<noteq> []"
    and "parse_body rt event = Inr (payload, st)"
    and "validate_payload rt payload = (False, msg)"
  shows "lambda_handler rt db event = (Inr (response_of rt 400 [(lit ''message'', msg)]), db)"
  using handler_post [OF assms(1-4), of db] submit_invalid [OF assms(5,6), of db tn]
  by simp

lemma handler_created:
  assumes "request_method rt event = Inr m" and "m \<noteq> PStr (lit ''OPTIONS'')"
    and "getenv rt (lit ''TABLE_NAME'') = Some tn" and "tn \<noteq> []"
    and "parse_body rt event = Inr (payload, st)"
    and "validate_payload rt payload = (True, msg)"
    and "fst (put_item db tn (without_none (make_item rt payload st))) = None"
  shows "lambda_handler rt db event =
           (Inr (response_of rt 201 [(lit ''message'', lit ''Submitted''), (lit ''userId'', uuid4 rt)]),
            snd (put_item db tn (without_none (make_item rt payload st))))"
  using handler_post [OF assms(1-4), of db] submit_valid [OF assms(5,6), of db tn] assms(7)
  by (cases "put_item db tn (without_none (make_item rt payload st))") simp

lemma handler_store_error:
  assumes "request_method rt event = Inr m" and "m \<noteq> PStr (lit ''OPTIONS'')"
    and "getenv rt (lit ''TABLE_NAME'') = Some tn" and "tn \<noteq> []"
    and "parse_body rt event = Inr (payload, st)"
    and "validate_payload rt payload = (True, msg)"
    and "fst (put_item db tn (without_none (make_item rt payload st))) = Some (ClientError detail)"
  shows "lambda_handler rt db event =
           (Inr (response_of rt 500 [(lit ''message'', lit ''DynamoDB error''), (lit ''detail'', detail)]),
            snd (put_item db tn (without_none (make_item rt payload st))))"
  using handler_post [OF assms(1-4), of db] submit_valid [OF assms(5,6), of db tn] assms(7)
  by (cases "put_item db tn (without_none (make_item rt payload st))") simp

subsection \<open>The example requests, stage by stage\<close>

lemma post_method:
  "request_method rt (json_event b) = Inr (PStr (lit ''POST''))"
  "request_method rt (form_event b) = Inr (PStr (lit ''POST''))"
  by (simp_all add: request_method_def json_event_def form_event_def dict_get_def truthy_def)

lemma post_not_options: "PStr (lit ''POST'') \<noteq> PStr (lit ''OPTIONS'')"
  by simp

lemma example_table_name:
  "getenv example_runtime (lit ''TABLE_NAME'') = Some (lit ''submissions'')"
  "lit ''submissions'' \<noteq> []"
  by (simp_all add: getenv_def example_runtime_def)

lemma json_event_parts:
  "content_type rt (json_event b) = Inr (PStr (lit ''application/json''))"
  "py_in rt (lit ''application/x-www-form-urlencoded'') (PStr (lit ''application/json'')) = Inr False"
  "raw_body rt (json_event b) = Inr (PStr b)"
  by (simp_all add: json_event_def parse_defs)

lemma form_event_parts:
  "content_type rt (form_event b) = Inr (PStr (lit ''application/x-www-form-urlencoded''))"
  "contains (lit ''application/x-www-form-urlencoded'') (lit ''application/x-www-form-urlencoded'')"
  "raw_body rt (form_event b) = Inr (PStr b)"
  by (simp_all add: form_event_def parse_defs)

lemma json_loads_examples:
  \<open>json_loads (lit ''{"name":"Jo","email":"jo@example.com"}'') = Some (PDict jo_payload)\<close>
  \<open>json_loads (lit ''{not json'') = None\<close>
  \<open>json_loads (lit ''[1,2]'') = Some (PList [PInt 1, PInt 2])\<close>
  by (simp_all add: json_defs jo_payload_def simple_escape_def)

lemma parse_qs_examples:
  "parse_qs (lit ''name=Jo&email=jo%40example.com'')
     = [(lit ''name'', [lit ''Jo'']), (lit ''email'', [lit ''jo@example.com''])]"
  "parse_qs (lit ''name=Jo&email=jo%40example.com%0A'')
     = [(lit ''name'', [lit ''Jo'']), (lit ''email'', [lit ''jo@example.com'' @ [10]])]"
  "parse_qs (lit ''{not json'') = []"
  by (simp_all add: qs_defs)

lemma jo_valid: "validate_payload rt jo_payload = (True, [])"
  by (simp add: validate_defs jo_payload_def)

lemma jo_item:
  "without_none (make_item example_runtime jo_payload st) = jo_record st"
  by (simp add: store_defs jo_payload_def jo_record_def example_runtime_def py_str_def)

lemma parse_body_json:
  assumes "content_type rt event = Inr ct"
    and "py_in rt (lit ''application/x-www-form-urlencoded'') ct = Inr False"
    and "raw_body rt event = Inr (PStr s)" and "s \<noteq> []" and "json_loads s = Some (PDict d)"
  shows "parse_body rt event = Inr (d, lit ''json'')"
  using assms by (simp add: parse_body_def truthy_def)

lemma parse_body_form:
  assumes "content_type rt event = Inr (PStr ct)"
    and "contains (lit ''application/x-www-form-urlencoded'') ct"
    and "raw_body rt event = Inr (PStr s)"
  shows "parse_body rt event = Inr (first_values (parse_qs s), lit ''form'')"
  using assms by (simp add: parse_body_def py_in_def)

lemma jo_json_parsed:
  \<open>parse_body rt (json_event (lit ''{"name":"Jo","email":"jo@example.com"}''))
     = Inr (jo_payload, lit ''json'')\<close>
  by (rule parse_body_json [OF json_event_parts _ json_loads_examples(1)]) simp

lemma jo_fields:
  "truthy (dict_get jo_payload (lit ''name''))"
  "truthy (dict_get jo_payload (lit ''email''))"
  "is_valid_email (py_str rt (dict_get jo_payload (lit ''email'')))"
  "dict_get jo_payload (lit ''message'') = PNone"
  "dict_get jo_payload (lit ''phone'') = PNone"
  by (simp_all add: validate_defs jo_payload_def)

lemma handler_valid_store:
  assumes "request_method rt event = Inr m" and "m \<noteq> PStr (lit ''OPTIONS'')"
    and "getenv rt (lit ''TABLE_NAME'') = Some tn" and "tn \<noteq> []"
    and "parse_body rt event = Inr (payload, st)"
    and "validate_payload rt payload = (True, msg)"
  shows "snd (lambda_handler rt db event) = snd (put_item db tn (without_none (make_item rt payload st)))"
proof (cases "put_item db tn (without_none (make_item rt payload st))")
  case (Pair res db')
  show ?thesis
  proof (cases res)
    case None
    then show ?thesis
      using handler_created [OF assms, of db] Pair by simp
  next
    case (Some e)
    then show ?thesis
      using handler_post [OF assms(1-4), of db] submit_valid [OF assms(5,6), of db tn] Pair
      by (cases e) simp_all
  qed
qed

lemma item_fields:
  "map_of (without_none (make_item rt payload st)) (lit ''userId'') = Some (uuid4 rt)"
  "map_of (without_none (make_item rt payload st)) (lit ''name'')
     = Some (py_str rt (dict_get payload (lit ''name'')))"
  "map_of (without_none (make_item rt payload st)) (lit ''email'')
     = Some (py_str rt (dict_get payload (lit ''email'')))"
  "map_of (without_none (make_item rt payload st)) (lit ''sourceType'') = Some st"
  "map_of (without_none (make_item rt payload st)) (lit ''createdAt'') = Some (utcnow_iso rt)"
  "map_of (without_none (make_item rt payload st)) (lit ''updatedAt'') = Some (utcnow_iso rt)"
  "map_of (without_none (make_item rt payload st)) (lit ''id'') = None"
  by (simp_all add: make_item_def without_none_def)

lemma item_optional:
  "dict_get payload (lit ''message'') = PNone \<Longrightarrow>
   lit ''message'' \<notin> fst ` set (without_none (make_item rt payload st))"
  "dict_get payload (lit ''phone'') = PNone \<Longrightarrow>
   lit ''phone'' \<notin> fst ` set (without_none (make_item rt payload st))"
  by (simp_all add: make_item_def without_none_def)

lemma conditional_put_length:
  "conditional_put t it a = Inr t' \<Longrightarrow> length (rows t') \<le> Suc (length (rows t))"
  by (auto simp: conditional_put_def split: option.splits if_splits)

lemma put_item_rows:
  assumes "put_item db tn it = (None, db')"
  shows "\<exists>t t'. map_of (tables db) tn = Some t \<and> map_of (tables db') tn = Some t'
           \<and> it \<in> set (rows t') \<and> length (rows t') \<le> Suc (length (rows t))"
  using assms
  by (auto simp: put_item_def Let_def map_of_dict_set conditional_put_stores conditional_put_length
           split: option.splits sum.splits)

lemma put_item_collision:
  assumes "map_of (tables db) tn = Some t" and "key_attr t = a"
    and "r \<in> set (rows t)" and "map_of r a = map_of it a" and "map_of it a \<noteq> None"
  shows "\<exists>msg. conditional_put t it a = Inl msg"
proof -
  from assms(5) obtain k where k: "map_of it a = Some k" by blast
  show ?thesis
  proof (cases "k = []")
    case True
    then show ?thesis using k assms(2) by (simp add: conditional_put_def)
  next
    case False
    have "find (\<lambda>r. map_of r a = Some k) (rows t) \<noteq> None"
      using assms(3,4) k by (auto simp: find_None_iff)
    then obtain r' where r': "find (\<lambda>r. map_of r a = Some k) (rows t) = Some r'"
      by blast
    then have "map_of r' a = Some k"
      by (auto simp: find_Some_iff)
    then have "a \<in> fst ` set r'"
      by (metis domI dom_map_of_conv_image_fst)
    then show ?thesis
      using k False r' assms(2) by (simp add: conditional_put_def)
  qed
qed

subsection \<open>The first value of a form key\<close>

lemma map_of_qs_add:
  "map_of (qs_add d n v) k =
     (if k = n then Some ((case map_of d n of None \<Rightarrow> [] | Some vs \<Rightarrow> vs) @ [v]) else map_of d k)"
  by (induction d n v rule: qs_add.induct) auto

lemma map_of_foldl_qs_add:
  "map_of (foldl (\<lambda>d (n, v). qs_add d n v) d ps) k =
     (if map_of d k = None \<and> map snd (filter (\<lambda>p. fst p = k) ps) = [] then None
      else Some ((case map_of d k of None \<Rightarrow> [] | Some us \<Rightarrow> us)
                 @ map snd (filter (\<lambda>p. fst p = k) ps)))"
proof (induction ps arbitrary: d)
  case Nil
  then show ?case by (auto split: option.splits)
next
  case (Cons p ps)
  obtain n v where p: "p = (n, v)" by (cases p)
  show ?case
    unfolding p using Cons.IH [of "qs_add d n v"]
    by (auto simp: map_of_qs_add split: option.splits)
qed

lemma map_of_first:
  "map_of ps k = (case map snd (filter (\<lambda>p. fst p = k) ps) of [] \<Rightarrow> None | x # _ \<Rightarrow> Some x)"
  by (induction ps) auto

lemma map_of_first_values:
  "map_of (first_values d) k
     = map_option (\<lambda>v. case v of [] \<Rightarrow> PList [] | x # _ \<Rightarrow> PStr x) (map_of d k)"
  by (induction d) (auto simp: first_values_def)

lemma first_value_taken:
  "map_of (first_values (parse_qs s)) k = map_option PStr (map_of (parse_qsl s) k)"
  unfolding map_of_first_values parse_qs_def map_of_foldl_qs_add map_of_first [of "parse_qsl s" k]
  by (cases "map snd (filter (\<lambda>p. fst p = k) (parse_qsl s))") simp_all

subsection \<open>What the handler answers once the body is parsed\<close>

lemma validate_messages:
  assumes "validate_payload rt payload = (False, msg)"
  shows "msg = lit ''Missing required field: name'' \<or> msg = lit ''Missing required field: email''
         \<or> msg = lit ''Invalid email format''"
  using assms
  by (auto simp: validate_payload_def required_fields_def split: option.splits if_splits)

lemma put_item_error_kind:
  "fst (put_item db tn it) = Some e \<Longrightarrow> \<exists>msg. e = ClientError msg"
  by (auto simp: put_item_def Let_def split: option.splits sum.splits)

lemma handler_after_parse:
  assumes "request_method rt event = Inr m" and "m \<noteq> PStr (lit ''OPTIONS'')"
    and "getenv rt (lit ''TABLE_NAME'') = Some tn" and "tn \<noteq> []"
    and "parse_body rt event = Inr (payload, st)"
  shows "(\<exists>msg. validate_payload rt payload = (False, msg)
            \<and> lambda_handler rt db event = (Inr (response_of rt 400 [(lit ''message'', msg)]), db))
         \<or> (\<exists>r. fst (lambda_handler rt db event) = Inr r \<and> statusCode r \<noteq> 400)"
proof (cases "validate_payload rt payload")
  case (Pair ok msg)
  show ?thesis
  proof (cases ok)
    case False
    then show ?thesis
      using handler_invalid [OF assms, of msg db] Pair by simp
  next
    case True
    let ?it = "without_none (make_item rt payload st)"
    from True Pair have v: "validate_payload rt payload = (True, msg)" by simp
    show ?thesis
    proof (cases "fst (put_item db tn ?it)")
      case None
      then show ?thesis
        using handler_created [OF assms v, of db] by (simp add: response_of_def)
    next
      case (Some e)
      then obtain detail where "e = ClientError detail"
        using put_item_error_kind by blast
      then show ?thesis
        using handler_store_error [OF assms v, of db detail] Some by (simp add: response_of_def)
    qed
  qed
qed

lemma parse_messages_differ:
  assumes "msg = lit ''Missing required field: name'' \<or> msg = lit ''Missing required field: email''
           \<or> msg = lit ''Invalid email format''"
  shows "response_of rt 400 [(lit ''message'', msg)]
           \<noteq> response_of rt 400 [(lit ''message'', lit ''Invalid JSON in request body'')]"
    and "response_of rt 400 [(lit ''message'', msg)]
           \<noteq> response_of rt 400 [(lit ''message'', lit ''Request JSON must be an object'')]"
  using assms by (auto simp: dumps_defs)

subsection \<open>The claims\<close>

text \<open>
  C6. A request whose method, read from \<open>httpMethod\<close> or else from
  \<open>requestContext.http.method\<close>, is \<open>OPTIONS\<close> is answered with status 204, the body
  \<open>{}\<close> and the four CORS headers, whatever its body and whatever the environment holds
  (so also without \<open>TABLE_NAME\<close>); the store is returned as it was, with no request added
  to its list, and nothing of the event but the method enters the result.
\<close>

theorem options_preflight:
  assumes "request_method rt event = Inr (PStr (lit ''OPTIONS''))"
  shows "lambda_handler rt db event =
           (Inr \<lparr>statusCode = 204,
                 headers =
                   [(lit ''Access-Control-Allow-Origin'',
                     case getenv rt (lit ''ALLOWED_ORIGINS'') of None \<Rightarrow> lit ''*'' | Some v \<Rightarrow> v),
                    (lit ''Access-Control-Allow-Methods'', lit ''OPTIONS,POST''),
                    (lit ''Access-Control-Allow-Headers'', lit ''Content-Type,Authorization''),
                    (lit ''Access-Control-Max-Age'', lit ''86400'')],
                 body = lit ''{}''\<rparr>,
            db)"
  using assms
  by (simp add: lambda_handler_def response_of_def get_cors_headers_def json_dumps_empty)

theorem options_preflight_witness:
  "request_method unconfigured_runtime preflight_event = Inr (PStr (lit ''OPTIONS''))
   \<and> lambda_handler unconfigured_runtime example_store preflight_event =
       (Inr \<lparr>statusCode = 204,
             headers =
               [(lit ''Access-Control-Allow-Origin'', lit ''*''),
                (lit ''Access-Control-Allow-Methods'', lit ''OPTIONS,POST''),
                (lit ''Access-Control-Allow-Headers'', lit ''Content-Type,Authorization''),
                (lit ''Access-Control-Max-Age'', lit ''86400'')],
             body = lit ''{}''\<rparr>,
        example_store)"
proof -
  have m: "request_method unconfigured_runtime preflight_event = Inr (PStr (lit ''OPTIONS''))"
    by (simp add: request_method_def preflight_event_def dict_get_def truthy_def py_get_def)
  have e: "getenv unconfigured_runtime (lit ''ALLOWED_ORIGINS'') = None"
    by (simp add: getenv_def unconfigured_runtime_def example_runtime_def)
  show ?thesis
    using m options_preflight [OF m, of example_store]
    by (simp add: getenv_def unconfigured_runtime_def example_runtime_def)
qed



text \<open>
  C3. The validator checks \<open>name\<close> before \<open>email\<close> and reports the first field that is missing
  or falsy; an email that passes both checks is tested against the pattern. The lemmas
  \<open>validate_missing_name\<close>, \<open>validate_missing_email\<close> and \<open>validate_bad_email\<close> give the three
  messages. The pattern of the code, though, accepts more than the shape the claim describes
  (\<open>is_valid_email_iff\<close>): its \<open>$\<close> also holds before a newline that ends the string. Here
  the form body \<open>name=Jo&email=jo%40example.com%0A\<close> carries an email that ends in a
  newline: the email has not the described shape, the validator accepts it, and the handler
  answers 201.
\<close>

theorem trailing_newline_email_accepted:
  "\<not> spec_email_shape (lit ''jo@example.com'' @ [10])
   \<and> parse_body example_runtime (form_event (lit ''name=Jo&email=jo%40example.com%0A''))
       = Inr ([(lit ''name'', PStr (lit ''Jo'')),
               (lit ''email'', PStr (lit ''jo@example.com'' @ [10]))], lit ''form'')
   \<and> validate_payload example_runtime
         [(lit ''name'', PStr (lit ''Jo'')), (lit ''email'', PStr (lit ''jo@example.com'' @ [10]))]
       = (True, [])
   \<and> fst (lambda_handler example_runtime example_store
             (form_event (lit ''name=Jo&email=jo%40example.com%0A'')))
       = Inr (response_of example_runtime 201
                [(lit ''message'', lit ''Submitted''), (lit ''userId'', uuid4 example_runtime)])"
proof -
  let ?ev = "form_event (lit ''name=Jo&email=jo%40example.com%0A'')"
  let ?p = "[(lit ''name'', PStr (lit ''Jo'')), (lit ''email'', PStr (lit ''jo@example.com'' @ [10]))]"
  have p: "parse_body example_runtime ?ev = Inr (?p, lit ''form'')"
    by (simp add: form_event_def parse_defs qs_defs)
  have v: "validate_payload example_runtime ?p = (True, [])"
    by (simp add: validate_defs)
  have s: "fst (put_item example_store (lit ''submissions'')
                  (without_none (make_item example_runtime ?p (lit ''form'')))) = None"
    by (simp add: store_defs example_store_def example_runtime_def py_str_def)
  have "fst (lambda_handler example_runtime example_store ?ev)
        = Inr (response_of example_runtime 201
                 [(lit ''message'', lit ''Submitted''), (lit ''userId'', uuid4 example_runtime)])"
    using handler_created [OF post_method(2) post_not_options example_table_name p v s]
    by simp
  then show ?thesis
    using not_shape_trailing_newline [of "lit ''jo@example.com''"] p v by blast
qed



text \<open>
  C1, as stated, fails: the handler answers a valid payload with 201 only when the store
  accepts the write. Here the table already holds a record with the identifier that is
  drawn, the conditional write is refused, and the answer is 500 with nothing stored.
\<close>

theorem valid_submission_counterexample:
  \<open>parse_body example_runtime (json_event (lit ''{"name":"Jo","email":"jo@example.com"}''))
     = Inr (jo_payload, lit ''json'')
   \<and> truthy (dict_get jo_payload (lit ''name''))
   \<and> truthy (dict_get jo_payload (lit ''email''))
   \<and> is_valid_email (py_str example_runtime (dict_get jo_payload (lit ''email'')))
   \<and> fst (lambda_handler example_runtime colliding_store
             (json_event (lit ''{"name":"Jo","email":"jo@example.com"}'')))
       = Inr \<lparr>statusCode = 500, headers = get_cors_headers example_runtime,
               body = lit ''{"message": "DynamoDB error", "detail": "An error occurred (ConditionalCheckFailedException) when calling the PutItem operation: The conditional request failed"}''\<rparr>
   \<and> tables (snd (lambda_handler example_runtime colliding_store
                     (json_event (lit ''{"name":"Jo","email":"jo@example.com"}''))))
       = tables colliding_store\<close>
proof -
  let ?ev = \<open>json_event (lit ''{"name":"Jo","email":"jo@example.com"}'')\<close>
  have s: "fst (put_item colliding_store (lit ''submissions'')
                  (without_none (make_item example_runtime jo_payload (lit ''json''))))
           = Some (ClientError (lit ''An error occurred (ConditionalCheckFailedException) when calling the PutItem operation: The conditional request failed''))"
    by (simp add: store_defs colliding_store_def example_runtime_def jo_payload_def py_str_def)
  have t: "tables (snd (put_item colliding_store (lit ''submissions'')
                  (without_none (make_item example_runtime jo_payload (lit ''json'')))))
           = tables colliding_store"
    by (simp add: store_defs colliding_store_def example_runtime_def jo_payload_def py_str_def)
  have "lambda_handler example_runtime colliding_store ?ev =
          (Inr (response_of example_runtime 500
                  [(lit ''message'', lit ''DynamoDB error''),
                   (lit ''detail'', lit ''An error occurred (ConditionalCheckFailedException) when calling the PutItem operation: The conditional request failed'')]),
           snd (put_item colliding_store (lit ''submissions'')
                  (without_none (make_item example_runtime jo_payload (lit ''json'')))))"
    by (rule handler_store_error [OF post_method(1) post_not_options example_table_name
              jo_json_parsed jo_valid s])
  then show ?thesis
    using t jo_json_parsed [of example_runtime] jo_fields(1,2) jo_fields(3) [of example_runtime]
    by (simp add: dumps_defs)
qed

text \<open>
  C1, amended. For every request that reaches the \<open>try\<close> statement (the method is not
  \<open>OPTIONS\<close>, the table name is set), whose body parses to a payload with a truthy \<open>name\<close> and
  a truthy \<open>email\<close> whose \<open>str()\<close> passes the pattern, and whose conditional write the store
  accepts: the handler answers 201 with the body \<open>{"message": "Submitted", "userId": id}\<close>,
  the store has received exactly one more request, which carries the record, the table then
  holds the record and has at most one more row than before, and \<open>createdAt\<close> and
  \<open>updatedAt\<close> of the record are the one time that was read.
\<close>

theorem valid_submission_created:
  assumes "request_method rt event = Inr m" and "m \<noteq> PStr (lit ''OPTIONS'')"
    and "getenv rt (lit ''TABLE_NAME'') = Some tn" and "tn \<noteq> []"
    and "parse_body rt event = Inr (payload, source_type)"
    and "truthy (dict_get payload (lit ''name''))"
    and "truthy (dict_get payload (lit ''email''))"
    and "is_valid_email (py_str rt (dict_get payload (lit ''email'')))"
    and "put_item db tn (without_none (make_item rt payload source_type)) = (None, db')"
  shows "lambda_handler rt db event =
           (Inr \<lparr>statusCode = 201, headers = get_cors_headers rt,
                 body = json_dumps [(lit ''message'', lit ''Submitted''), (lit ''userId'', uuid4 rt)]\<rparr>,
            db')
         \<and> calls db' = calls db @ [(tn, without_none (make_item rt payload source_type))]
         \<and> (\<exists>t t'. map_of (tables db) tn = Some t \<and> map_of (tables db') tn = Some t'
               \<and> without_none (make_item rt payload source_type) \<in> set (rows t')
               \<and> length (rows t') \<le> Suc (length (rows t)))
         \<and> map_of (without_none (make_item rt payload source_type)) (lit ''createdAt'')
             = Some (utcnow_iso rt)
         \<and> map_of (without_none (make_item rt payload source_type)) (lit ''updatedAt'')
             = Some (utcnow_iso rt)"
proof -
  have v: "validate_payload rt payload = (True, [])"
    by (rule validate_ok [OF assms(6-8)])
  have "lambda_handler rt db event =
          (Inr (response_of rt 201 [(lit ''message'', lit ''Submitted''), (lit ''userId'', uuid4 rt)]),
           db')"
    using handler_created [OF assms(1-5) v, of db] assms(9) by simp
  then show ?thesis
    using put_item_success(1) [OF assms(9)] put_item_rows [OF assms(9)]
      item_fields(5,6) [of rt payload source_type]
    by (simp add: response_of_def)
qed

theorem valid_submission_created_witness:
  \<open>request_method example_runtime (json_event (lit ''{"name":"Jo","email":"jo@example.com"}''))
     = Inr (PStr (lit ''POST''))
   \<and> PStr (lit ''POST'') \<noteq> PStr (lit ''OPTIONS'')
   \<and> getenv example_runtime (lit ''TABLE_NAME'') = Some (lit ''submissions'')
   \<and> lit ''submissions'' \<noteq> []
   \<and> parse_body example_runtime (json_event (lit ''{"name":"Jo","email":"jo@example.com"}''))
       = Inr (jo_payload, lit ''json'')
   \<and> truthy (dict_get jo_payload (lit ''name''))
   \<and> truthy (dict_get jo_payload (lit ''email''))
   \<and> is_valid_email (py_str example_runtime (dict_get jo_payload (lit ''email'')))
   \<and> put_item example_store (lit ''submissions'')
         (without_none (make_item example_runtime jo_payload (lit ''json'')))
       = (None,
          \<lparr>tables = [(lit ''submissions'',
                      \<lparr>key_attr = lit ''userId'', rows = [jo_record (lit ''json'')]\<rparr>)],
           calls = [(lit ''submissions'', jo_record (lit ''json''))]\<rparr>)
   \<and> lambda_handler example_runtime example_store
         (json_event (lit ''{"name":"Jo","email":"jo@example.com"}''))
       = (Inr \<lparr>statusCode = 201, headers = get_cors_headers example_runtime,
                body = lit ''{"message": "Submitted", "userId": "3f2b8c1e-5d4a-4f6b-9c7d-1a2b3c4d5e6f"}''\<rparr>,
          \<lparr>tables = [(lit ''submissions'',
                      \<lparr>key_attr = lit ''userId'', rows = [jo_record (lit ''json'')]\<rparr>)],
           calls = [(lit ''submissions'', jo_record (lit ''json''))]\<rparr>)
   \<and> map_of (jo_record (lit ''json'')) (lit ''createdAt'')
       = map_of (jo_record (lit ''json'')) (lit ''updatedAt'')\<close>
proof -
  have s: "put_item example_store (lit ''submissions'')
             (without_none (make_item example_runtime jo_payload (lit ''json'')))
           = (None,
              \<lparr>tables = [(lit ''submissions'',
                          \<lparr>key_attr = lit ''userId'', rows = [jo_record (lit ''json'')]\<rparr>)],
               calls = [(lit ''submissions'', jo_record (lit ''json''))]\<rparr>)"
    unfolding jo_item
    by (simp add: put_item_def conditional_put_def example_store_def jo_record_def)
  have d: \<open>json_dumps [(lit ''message'', lit ''Submitted''), (lit ''userId'', uuid4 example_runtime)]
           = lit ''{"message": "Submitted", "userId": "3f2b8c1e-5d4a-4f6b-9c7d-1a2b3c4d5e6f"}''\<close>
    by (simp add: dumps_defs example_runtime_def)
  show ?thesis
    using valid_submission_created [OF post_method(1) post_not_options example_table_name
        jo_json_parsed jo_fields(1-3) s]
      post_method(1) [of example_runtime] post_not_options example_table_name
      jo_json_parsed [of example_runtime] jo_fields(1,2) jo_fields(3) [of example_runtime] s
    unfolding jo_item d
    by simp
qed

text \<open>
  C2, as stated, fails: the record has no field \<open>id\<close>. The identifier is stored under
  \<open>userId\<close>, and the condition of the write names \<open>userId\<close>; a stored record that carries the
  drawn identifier under \<open>id\<close> does not stop the write.
\<close>

theorem record_key_counterexample:
  "map_of (without_none (make_item example_runtime jo_payload (lit ''json''))) (lit ''id'') = None
   \<and> map_of (without_none (make_item example_runtime jo_payload (lit ''json''))) (lit ''userId'')
       = Some (uuid4 example_runtime)
   \<and> map_of (hd (rows (snd (hd (tables store_with_id))))) (lit ''id'')
       = Some (uuid4 example_runtime)
   \<and> fst (put_item store_with_id (lit ''submissions'')
             (without_none (make_item example_runtime jo_payload (lit ''json'')))) = None"
  by (simp add: store_defs store_with_id_def example_runtime_def jo_payload_def py_str_def)

text \<open>
  C2, amended. The field of the record that holds the generated UUID is named \<open>userId\<close>
  (there is no field \<open>id\<close>), and the write is conditional on \<open>userId\<close>: on a table whose key
  is \<open>userId\<close>, when a record with the same \<open>userId\<close> is already stored, the write fails with
  a \<open>ClientError\<close> and the tables are left as they were.
\<close>

theorem record_key_is_userId:
  assumes "map_of (tables db) tn = Some t" and "key_attr t = lit ''userId''"
    and "r \<in> set (rows t)" and "map_of r (lit ''userId'') = Some (uuid4 rt)"
  shows "map_of (without_none (make_item rt payload st)) (lit ''userId'') = Some (uuid4 rt)
         \<and> map_of (without_none (make_item rt payload st)) (lit ''id'') = None
         \<and> (\<exists>msg. fst (put_item db tn (without_none (make_item rt payload st)))
                     = Some (ClientError msg))
         \<and> tables (snd (put_item db tn (without_none (make_item rt payload st)))) = tables db"
proof -
  let ?it = "without_none (make_item rt payload st)"
  have "map_of r (lit ''userId'') = map_of ?it (lit ''userId'')"
    using assms(4) item_fields(1) [of rt payload st] by simp
  moreover have "map_of ?it (lit ''userId'') \<noteq> None"
    using item_fields(1) [of rt payload st] by simp
  ultimately obtain msg where "conditional_put t ?it (lit ''userId'') = Inl msg"
    using put_item_collision [OF assms(1,2,3)] by blast
  then have "fst (put_item db tn ?it) = Some (ClientError msg)"
    and "tables (snd (put_item db tn ?it)) = tables db"
    using assms(1) by (simp_all add: put_item_def Let_def)
  then show ?thesis
    using item_fields(1,7) [of rt payload st] by blast
qed

theorem record_key_is_userId_witness:
  "map_of (tables colliding_store) (lit ''submissions'')
     = Some \<lparr>key_attr = lit ''userId'',
             rows = [[(lit ''userId'', lit ''3f2b8c1e-5d4a-4f6b-9c7d-1a2b3c4d5e6f''),
                      (lit ''name'', lit ''Al'')]]\<rparr>
   \<and> [(lit ''userId'', lit ''3f2b8c1e-5d4a-4f6b-9c7d-1a2b3c4d5e6f''), (lit ''name'', lit ''Al'')]
       \<in> set [[(lit ''userId'', lit ''3f2b8c1e-5d4a-4f6b-9c7d-1a2b3c4d5e6f''),
                (lit ''name'', lit ''Al'')]]
   \<and> map_of [(lit ''userId'', lit ''3f2b8c1e-5d4a-4f6b-9c7d-1a2b3c4d5e6f''),
              (lit ''name'', lit ''Al'')] (lit ''userId'')
       = Some (uuid4 example_runtime)
   \<and> map_of (without_none (make_item example_runtime jo_payload (lit ''json''))) (lit ''userId'')
       = Some (uuid4 example_runtime)
   \<and> map_of (without_none (make_item example_runtime jo_payload (lit ''json''))) (lit ''id'') = None
   \<and> (\<exists>msg. fst (put_item colliding_store (lit ''submissions'')
                    (without_none (make_item example_runtime jo_payload (lit ''json''))))
              = Some (ClientError msg))
   \<and> tables (snd (put_item colliding_store (lit ''submissions'')
                     (without_none (make_item example_runtime jo_payload (lit ''json'')))))
       = tables colliding_store"
proof -
  let ?r = "[(lit ''userId'', lit ''3f2b8c1e-5d4a-4f6b-9c7d-1a2b3c4d5e6f''), (lit ''name'', lit ''Al'')]"
  let ?t = "\<lparr>key_attr = lit ''userId'', rows = [?r]\<rparr>"
  have a: "map_of (tables colliding_store) (lit ''submissions'') = Some ?t"
    by (simp add: colliding_store_def)
  have b: "key_attr ?t = lit ''userId''" by simp
  have c: "?r \<in> set (rows ?t)" by simp
  have d: "map_of ?r (lit ''userId'') = Some (uuid4 example_runtime)"
    by (simp add: example_runtime_def)
  show ?thesis
    using record_key_is_userId [OF a b c d, of jo_payload "lit ''json''"] a c d
    by simp
qed

text \<open>
  C9. For a request that reaches the \<open>try\<close> statement and whose payload passes validation,
  the store receives one request, and the record \<open>it\<close> it carries has no key \<open>message\<close> when
  the payload has no \<open>message\<close> or a null one, no key \<open>phone\<close> when the payload has no \<open>phone\<close>
  or a null one, and always the keys \<open>userId\<close>, \<open>name\<close>, \<open>email\<close>, \<open>sourceType\<close>, \<open>createdAt\<close>
  and \<open>updatedAt\<close>; when the store accepts the write, \<open>it\<close> is what the table then holds.
\<close>

theorem optional_fields_omitted:
  assumes "request_method rt event = Inr m" and "m \<noteq> PStr (lit ''OPTIONS'')"
    and "getenv rt (lit ''TABLE_NAME'') = Some tn" and "tn \<noteq> []"
    and "parse_body rt event = Inr (payload, source_type)"
    and "validate_payload rt payload = (True, msg)"
    and "it = without_none (make_item rt payload source_type)"
  shows "calls (snd (lambda_handler rt db event)) = calls db @ [(tn, it)]
         \<and> (dict_get payload (lit ''message'') = PNone \<longrightarrow> lit ''message'' \<notin> fst ` set it)
         \<and> (dict_get payload (lit ''phone'') = PNone \<longrightarrow> lit ''phone'' \<notin> fst ` set it)
         \<and> map_of it (lit ''userId'') = Some (uuid4 rt)
         \<and> map_of it (lit ''name'') = Some (py_str rt (dict_get payload (lit ''name'')))
         \<and> map_of it (lit ''email'') = Some (py_str rt (dict_get payload (lit ''email'')))
         \<and> map_of it (lit ''sourceType'') = Some source_type
         \<and> map_of it (lit ''createdAt'') = Some (utcnow_iso rt)
         \<and> map_of it (lit ''updatedAt'') = Some (utcnow_iso rt)
         \<and> (fst (put_item db tn it) = None \<longrightarrow>
              (\<exists>t'. map_of (tables (snd (lambda_handler rt db event))) tn = Some t'
                    \<and> it \<in> set (rows t')))"
proof -
  have h: "snd (lambda_handler rt db event) = snd (put_item db tn it)"
    unfolding assms(7) by (rule handler_valid_store [OF assms(1-6)])
  have c: "calls (snd (lambda_handler rt db event)) = calls db @ [(tn, it)]"
    unfolding h by (rule put_item_calls)
  have p: "fst (put_item db tn it) = None \<longrightarrow>
             (\<exists>t'. map_of (tables (snd (lambda_handler rt db event))) tn = Some t'
                   \<and> it \<in> set (rows t'))"
  proof
    assume "fst (put_item db tn it) = None"
    then have "put_item db tn it = (None, snd (put_item db tn it))"
      by (cases "put_item db tn it") simp
    from put_item_success(2) [OF this]
    show "\<exists>t'. map_of (tables (snd (lambda_handler rt db event))) tn = Some t' \<and> it \<in> set (rows t')"
      unfolding h .
  qed
  show ?thesis
    by (intro conjI)
       (use c p item_fields(1-6) [of rt payload source_type]
            item_optional [of payload rt source_type] assms(7) in simp_all)
qed

theorem optional_fields_omitted_witness:
  \<open>request_method example_runtime (json_event (lit ''{"name":"Jo","email":"jo@example.com"}''))
     = Inr (PStr (lit ''POST''))
   \<and> PStr (lit ''POST'') \<noteq> PStr (lit ''OPTIONS'')
   \<and> getenv example_runtime (lit ''TABLE_NAME'') = Some (lit ''submissions'')
   \<and> lit ''submissions'' \<noteq> []
   \<and> parse_body example_runtime (json_event (lit ''{"name":"Jo","email":"jo@example.com"}''))
       = Inr (jo_payload, lit ''json'')
   \<and> validate_payload example_runtime jo_payload = (True, [])
   \<and> jo_record (lit ''json'') = without_none (make_item example_runtime jo_payload (lit ''json''))
   \<and> dict_get jo_payload (lit ''message'') = PNone
   \<and> dict_get jo_payload (lit ''phone'') = PNone
   \<and> fst (put_item example_store (lit ''submissions'') (jo_record (lit ''json''))) = None
   \<and> calls (snd (lambda_handler example_runtime example_store
                    (json_event (lit ''{"name":"Jo","email":"jo@example.com"}''))))
       = calls example_store @ [(lit ''submissions'', jo_record (lit ''json''))]
   \<and> lit ''message'' \<notin> fst ` set (jo_record (lit ''json''))
   \<and> lit ''phone'' \<notin> fst ` set (jo_record (lit ''json''))
   \<and> map_of (jo_record (lit ''json'')) (lit ''userId'') = Some (uuid4 example_runtime)
   \<and> map_of (jo_record (lit ''json'')) (lit ''sourceType'') = Some (lit ''json'')
   \<and> (\<exists>t'. map_of (tables (snd (lambda_handler example_runtime example_store
                     (json_event (lit ''{"name":"Jo","email":"jo@example.com"}'')))))
               (lit ''submissions'') = Some t'
             \<and> jo_record (lit ''json'') \<in> set (rows t'))\<close>
proof -
  have s: "fst (put_item example_store (lit ''submissions'') (jo_record (lit ''json''))) = None"
    by (simp add: put_item_def conditional_put_def example_store_def jo_record_def)
  note i = jo_item [of "lit ''json''", symmetric]
  note t = optional_fields_omitted [OF post_method(1) post_not_options example_table_name
      jo_json_parsed jo_valid i, of example_store]
  show ?thesis
    by (intro conjI)
       (use t s i jo_fields(4,5) post_method(1) [of example_runtime] post_not_options
            example_table_name jo_json_parsed [of example_runtime] jo_valid [of example_runtime]
        in simp_all)
qed

text \<open>
  C5, as stated, fails: the lookup is by two exact keys. The same form request is parsed as
  a form under the key \<open>Content-Type\<close> and under the key \<open>content-type\<close>, and as JSON (which
  it is not) under the key \<open>CONTENT-TYPE\<close>.
\<close>

theorem content_type_case_counterexample:
  "parse_body example_runtime
     (headed_event (lit ''Content-Type'') (lit ''application/x-www-form-urlencoded'')
        (lit ''name=Jo&email=jo%40example.com''))
     = Inr (jo_payload, lit ''form'')
   \<and> parse_body example_runtime
       (headed_event (lit ''content-type'') (lit ''application/x-www-form-urlencoded'')
          (lit ''name=Jo&email=jo%40example.com''))
       = Inr (jo_payload, lit ''form'')
   \<and> parse_body example_runtime
       (headed_event (lit ''CONTENT-TYPE'') (lit ''application/x-www-form-urlencoded'')
          (lit ''name=Jo&email=jo%40example.com''))
       = Inl (ValueError (lit ''Invalid JSON in request body''))"
  by (simp add: headed_event_def parse_defs qs_defs json_defs jo_payload_def)

text \<open>
  C5, amended. The content type is looked up under exactly two keys, \<open>content-type\<close> and then
  \<open>Content-Type\<close>, and is the first truthy value found; when neither key holds a truthy value
  (no header, or a header under any other capitalization) the content type is
  \<open>application/json\<close> and the body is never parsed as a form.
\<close>

theorem content_type_lookup:
  assumes "event_headers event = PDict h"
  shows "content_type rt event =
           Inr (if truthy (dict_get h (lit ''content-type'')) then dict_get h (lit ''content-type'')
                else if truthy (dict_get h (lit ''Content-Type'')) then dict_get h (lit ''Content-Type'')
                else PStr (lit ''application/json''))
         \<and> (\<not> truthy (dict_get h (lit ''content-type'')) \<and> \<not> truthy (dict_get h (lit ''Content-Type''))
              \<longrightarrow> (\<forall>p. parse_body rt event \<noteq> Inr (p, lit ''form'')))"
proof
  show c: "content_type rt event =
           Inr (if truthy (dict_get h (lit ''content-type'')) then dict_get h (lit ''content-type'')
                else if truthy (dict_get h (lit ''Content-Type'')) then dict_get h (lit ''Content-Type'')
                else PStr (lit ''application/json''))"
    using assms by (simp add: content_type_def py_get_def dict_get_def)
  show "\<not> truthy (dict_get h (lit ''content-type'')) \<and> \<not> truthy (dict_get h (lit ''Content-Type''))
          \<longrightarrow> (\<forall>p. parse_body rt event \<noteq> Inr (p, lit ''form''))"
  proof (intro impI allI)
    fix p
    assume "\<not> truthy (dict_get h (lit ''content-type'')) \<and> \<not> truthy (dict_get h (lit ''Content-Type''))"
    then have "content_type rt event = Inr (PStr (lit ''application/json''))"
      using c by simp
    then show "parse_body rt event \<noteq> Inr (p, lit ''form'')"
      by (auto simp: parse_body_def py_in_def
               split: sum.splits pyval.splits option.splits if_splits)
  qed
qed

theorem content_type_lookup_witness:
  "event_headers (headed_event (lit ''CONTENT-TYPE'') (lit ''application/x-www-form-urlencoded'')
                    (lit ''name=Jo&email=jo%40example.com''))
     = PDict [(lit ''CONTENT-TYPE'', PStr (lit ''application/x-www-form-urlencoded''))]
   \<and> \<not> truthy (dict_get [(lit ''CONTENT-TYPE'', PStr (lit ''application/x-www-form-urlencoded''))]
                 (lit ''content-type''))
   \<and> \<not> truthy (dict_get [(lit ''CONTENT-TYPE'', PStr (lit ''application/x-www-form-urlencoded''))]
                 (lit ''Content-Type''))
   \<and> content_type example_runtime
       (headed_event (lit ''CONTENT-TYPE'') (lit ''application/x-www-form-urlencoded'')
          (lit ''name=Jo&email=jo%40example.com''))
       = Inr (PStr (lit ''application/json''))
   \<and> (\<forall>p. parse_body example_runtime
             (headed_event (lit ''CONTENT-TYPE'') (lit ''application/x-www-form-urlencoded'')
                (lit ''name=Jo&email=jo%40example.com''))
           \<noteq> Inr (p, lit ''form''))"
proof -
  let ?h = "[(lit ''CONTENT-TYPE'', PStr (lit ''application/x-www-form-urlencoded''))]"
  let ?ev = "headed_event (lit ''CONTENT-TYPE'') (lit ''application/x-www-form-urlencoded'')
               (lit ''name=Jo&email=jo%40example.com'')"
  have h: "event_headers ?ev = PDict ?h"
    by (simp add: headed_event_def event_headers_def truthy_def)
  have n: "\<not> truthy (dict_get ?h (lit ''content-type''))" "\<not> truthy (dict_get ?h (lit ''Content-Type''))"
    by (simp_all add: dict_get_def truthy_def)
  show ?thesis
    using content_type_lookup [OF h, of example_runtime] h n by simp
qed

text \<open>
  C8. The form body \<open>name=Jo&email=jo%40example.com\<close> under the form content type and the
  JSON body \<open>{"name":"Jo","email":"jo@example.com"}\<close> under the JSON content type parse to
  the same mapping, and the tags are \<open>form\<close> and \<open>json\<close>. For any form body \<open>s\<close> and key \<open>k\<close>, the
  mapping holds for \<open>k\<close> the value of the first pair of \<open>s\<close> with that key, and nothing when
  there is none; so \<open>a=1&a=2\<close> gives \<open>1\<close> for \<open>a\<close>.
\<close>

theorem form_json_round_trip:
  \<open>parse_body rt (headed_event (lit ''Content-Type'') (lit ''application/x-www-form-urlencoded'')
                   (lit ''name=Jo&email=jo%40example.com''))
     = Inr ([(lit ''name'', PStr (lit ''Jo'')), (lit ''email'', PStr (lit ''jo@example.com''))],
            lit ''form'')
   \<and> parse_body rt (headed_event (lit ''Content-Type'') (lit ''application/json'')
                     (lit ''{"name":"Jo","email":"jo@example.com"}''))
       = Inr ([(lit ''name'', PStr (lit ''Jo'')), (lit ''email'', PStr (lit ''jo@example.com''))],
              lit ''json'')
   \<and> lit ''form'' \<noteq> lit ''json''
   \<and> map_of (first_values (parse_qs s)) k = map_option PStr (map_of (parse_qsl s) k)
   \<and> parse_body rt (headed_event (lit ''Content-Type'') (lit ''application/x-www-form-urlencoded'')
                     (lit ''a=1&a=2''))
       = Inr ([(lit ''a'', PStr (lit ''1''))], lit ''form'')\<close>
proof -
  have a: "parse_body rt (headed_event (lit ''Content-Type'') (lit ''application/x-www-form-urlencoded'')
                   (lit ''name=Jo&email=jo%40example.com''))
     = Inr ([(lit ''name'', PStr (lit ''Jo'')), (lit ''email'', PStr (lit ''jo@example.com''))],
            lit ''form'')"
    by (simp add: headed_event_def parse_defs qs_defs)
  have b: \<open>parse_body rt (headed_event (lit ''Content-Type'') (lit ''application/json'')
                     (lit ''{"name":"Jo","email":"jo@example.com"}''))
       = Inr ([(lit ''name'', PStr (lit ''Jo'')), (lit ''email'', PStr (lit ''jo@example.com''))],
              lit ''json'')\<close>
    by (simp add: headed_event_def parse_defs json_defs)
  have c: "parse_body rt (headed_event (lit ''Content-Type'') (lit ''application/x-www-form-urlencoded'')
                     (lit ''a=1&a=2''))
       = Inr ([(lit ''a'', PStr (lit ''1''))], lit ''form'')"
    by (simp add: headed_event_def parse_defs qs_defs)
  have d: "lit ''form'' \<noteq> lit ''json''" by simp
  show ?thesis
    using a b c d first_value_taken [of s k] by (intro conjI)
qed

text \<open>
  C10, as stated, fails: a form request that is flagged as base64 and whose body does not
  decode makes \<open>_parse_body\<close> raise before the form is read. \<open>base64.b64decode("ab")\<close> raises
  \<open>binascii.Error: Incorrect padding\<close>, a \<open>ValueError\<close>, and the handler answers 400 with that
  text.
\<close>

theorem form_parsing_counterexample:
  \<open>content_type example_runtime (base64_form_event (lit ''ab''))
     = Inr (PStr (lit ''application/x-www-form-urlencoded''))
   \<and> contains (lit ''application/x-www-form-urlencoded'') (lit ''application/x-www-form-urlencoded'')
   \<and> parse_body example_runtime (base64_form_event (lit ''ab''))
       = Inl (ValueError (lit ''Incorrect padding''))
   \<and> lambda_handler example_runtime example_store (base64_form_event (lit ''ab''))
       = (Inr \<lparr>statusCode = 400, headers = get_cors_headers example_runtime,
                body = lit ''{"message": "Incorrect padding"}''\<rparr>, example_store)\<close>
proof -
  have m: "request_method example_runtime (base64_form_event (lit ''ab'')) = Inr (PStr (lit ''POST''))"
    by (simp add: request_method_def base64_form_event_def dict_get_def truthy_def)
  have c: "content_type example_runtime (base64_form_event (lit ''ab''))
             = Inr (PStr (lit ''application/x-www-form-urlencoded''))"
    by (simp add: base64_form_event_def parse_defs)
  have p: "parse_body example_runtime (base64_form_event (lit ''ab''))
             = Inl (ValueError (lit ''Incorrect padding''))"
    by (simp add: base64_form_event_def parse_defs example_runtime_def)
  show ?thesis
    using handler_parse_value_error [OF m post_not_options example_table_name p, of example_store]
      c p form_event_parts(2)
    by (simp add: dumps_defs)
qed

text \<open>
  C10, amended. For every request that reaches the \<open>try\<close> statement, whose content type is a
  string that contains \<open>application/x-www-form-urlencoded\<close> (so also with parameters after
  it) and whose body reaches the parser as a string \<open>s\<close> (it is not flagged as base64, or it
  decoded): parsing returns a mapping tagged \<open>form\<close> and raises nothing, the handler never
  answers with either of the two parse messages, and when no field can be read from \<open>s\<close> it
  answers 400 with \<open>Missing required field: name\<close> and leaves the store as it was.
\<close>

theorem form_parsing_total:
  assumes "request_method rt event = Inr m" and "m \<noteq> PStr (lit ''OPTIONS'')"
    and "getenv rt (lit ''TABLE_NAME'') = Some tn" and "tn \<noteq> []"
    and "content_type rt event = Inr (PStr ct)"
    and "contains (lit ''application/x-www-form-urlencoded'') ct"
    and "raw_body rt event = Inr (PStr s)"
  shows \<open>parse_body rt event = Inr (first_values (parse_qs s), lit ''form'')
         \<and> fst (lambda_handler rt db event)
             \<noteq> Inr (response_of rt 400 [(lit ''message'', lit ''Invalid JSON in request body'')])
         \<and> fst (lambda_handler rt db event)
             \<noteq> Inr (response_of rt 400 [(lit ''message'', lit ''Request JSON must be an object'')])
         \<and> (parse_qs s = [] \<longrightarrow>
              lambda_handler rt db event =
                (Inr \<lparr>statusCode = 400, headers = get_cors_headers rt,
                      body = lit ''{"message": "Missing required field: name"}''\<rparr>, db))\<close>
proof -
  have p: "parse_body rt event = Inr (first_values (parse_qs s), lit ''form'')"
    by (rule parse_body_form [OF assms(5-7)])
  from handler_after_parse [OF assms(1-4) p, of db]
  have n: "fst (lambda_handler rt db event)
             \<noteq> Inr (response_of rt 400 [(lit ''message'', lit ''Invalid JSON in request body'')])"
    and o: "fst (lambda_handler rt db event)
             \<noteq> Inr (response_of rt 400 [(lit ''message'', lit ''Request JSON must be an object'')])"
    using parse_messages_differ [OF validate_messages, of rt _ _ rt]
    by (auto simp: response_of_def)
  have e: \<open>parse_qs s = [] \<longrightarrow>
              lambda_handler rt db event =
                (Inr \<lparr>statusCode = 400, headers = get_cors_headers rt,
                      body = lit ''{"message": "Missing required field: name"}''\<rparr>, db)\<close>
  proof
    assume "parse_qs s = []"
    then have p': "parse_body rt event = Inr ([], lit ''form'')"
      using p by (simp add: first_values_def)
    have "validate_payload rt [] = (False, lit ''Missing required field: name'')"
      by (rule validate_missing_name) (simp add: dict_get_def truthy_def)
    from handler_invalid [OF assms(1-4) p' this, of db]
    show \<open>lambda_handler rt db event =
            (Inr \<lparr>statusCode = 400, headers = get_cors_headers rt,
                  body = lit ''{"message": "Missing required field: name"}''\<rparr>, db)\<close>
      by (simp add: dumps_defs)
  qed
  show ?thesis
    using p n o e by (intro conjI)
qed

theorem form_parsing_total_witness:
  \<open>request_method example_runtime
       (headed_event (lit ''Content-Type'') (lit ''application/x-www-form-urlencoded; charset=UTF-8'')
          (lit ''{not json''))
     = Inr (PStr (lit ''POST''))
   \<and> PStr (lit ''POST'') \<noteq> PStr (lit ''OPTIONS'')
   \<and> getenv example_runtime (lit ''TABLE_NAME'') = Some (lit ''submissions'')
   \<and> lit ''submissions'' \<noteq> []
   \<and> content_type example_runtime
       (headed_event (lit ''Content-Type'') (lit ''application/x-www-form-urlencoded; charset=UTF-8'')
          (lit ''{not json''))
       = Inr (PStr (lit ''application/x-www-form-urlencoded; charset=UTF-8''))
   \<and> contains (lit ''application/x-www-form-urlencoded'')
       (lit ''application/x-www-form-urlencoded; charset=UTF-8'')
   \<and> raw_body example_runtime
       (headed_event (lit ''Content-Type'') (lit ''application/x-www-form-urlencoded; charset=UTF-8'')
          (lit ''{not json''))
       = Inr (PStr (lit ''{not json''))
   \<and> parse_qs (lit ''{not json'') = []
   \<and> parse_body example_runtime
       (headed_event (lit ''Content-Type'') (lit ''application/x-www-form-urlencoded; charset=UTF-8'')
          (lit ''{not json''))
       = Inr ([], lit ''form'')
   \<and> lambda_handler example_runtime example_store
       (headed_event (lit ''Content-Type'') (lit ''application/x-www-form-urlencoded; charset=UTF-8'')
          (lit ''{not json''))
       = (Inr \<lparr>statusCode = 400, headers = get_cors_headers example_runtime,
                body = lit ''{"message": "Missing required field: name"}''\<rparr>, example_store)\<close>
proof -
  let ?ev = "headed_event (lit ''Content-Type'')
               (lit ''application/x-www-form-urlencoded; charset=UTF-8'') (lit ''{not json'')"
  have m: "request_method example_runtime ?ev = Inr (PStr (lit ''POST''))"
    by (simp add: request_method_def headed_event_def dict_get_def truthy_def)
  have c: "content_type example_runtime ?ev
             = Inr (PStr (lit ''application/x-www-form-urlencoded; charset=UTF-8''))"
    by (simp add: headed_event_def parse_defs)
  have i: "contains (lit ''application/x-www-form-urlencoded'')
             (lit ''application/x-www-form-urlencoded; charset=UTF-8'')"
    by simp
  have r: "raw_body example_runtime ?ev = Inr (PStr (lit ''{not json''))"
    by (simp add: headed_event_def parse_defs)
  note t = form_parsing_total [OF m post_not_options example_table_name c i r, of example_store]
  show ?thesis
    by (intro conjI)
       (use t m c i r post_not_options example_table_name parse_qs_examples(3)
        in \<open>simp_all add: first_values_def\<close>)
qed

end
